theory Spec2Isabelle
  imports Main "HOL-Library.Word" "HOL-Library.AList"
begin

unbundle bit_operations_syntax

text \<open>
  A shallow embedding of the atomic-swap engine: the order registry (the Solidity
  contract \<^verbatim>\<open>FusionResolver\<close>), the Bitcoin HTLC builder (\<^verbatim>\<open>bitcoin/htlc.js\<close>), the
  state store (\<^verbatim>\<open>StateManager\<close>) and the coordinator (\<^verbatim>\<open>SwapCoordinator\<close>).
  All definitions come first; the properties follow.
\<close>

type_synonym bytes = "8 word list"
type_synonym bytes32 = "256 word"
type_synonym uint256 = "256 word"
type_synonym address = "160 word"

section \<open>Hash functions\<close>

text \<open>
  The two sides of the swap hash the secret with different primitives: the Bitcoin side
  calls Node's \<^verbatim>\<open>crypto.createHash('sha256')\<close> (and the script's \<^verbatim>\<open>OP_SHA256\<close>), the
  contract calls the EVM's \<^verbatim>\<open>keccak256\<close>. Both are primitives of their platforms; they
  are written out here after FIPS 180-4 and the Keccak submission (rate 1088, padding
  byte 1, as Ethereum uses it), on integers, so that they can be evaluated. Their values
  on known inputs are checked among the properties.
\<close>


subsection \<open>SHA-256\<close>

text \<open>
  A 32-bit word is an integer below \<open>2 ^ 32\<close>. The round constants are the first 32 bits
  of the fractional parts of the cube roots of the first 64 primes, in decimal.
\<close>

definition add32 :: "int \<Rightarrow> int \<Rightarrow> int" where
  "add32 a b = take_bit 32 (a + b)"

definition rotr32 :: "nat \<Rightarrow> int \<Rightarrow> int" where
  "rotr32 n x = drop_bit n x OR take_bit 32 (push_bit (32 - n) x)"

definition Ch :: "int \<Rightarrow> int \<Rightarrow> int \<Rightarrow> int" where
  "Ch x y z = (x AND y) XOR ((x XOR 4294967295) AND z)"

definition Maj :: "int \<Rightarrow> int \<Rightarrow> int \<Rightarrow> int" where
  "Maj x y z = (x AND y) XOR (x AND z) XOR (y AND z)"

definition Sigma0 :: "int \<Rightarrow> int" where
  "Sigma0 x = rotr32 2 x XOR rotr32 13 x XOR rotr32 22 x"

definition Sigma1 :: "int \<Rightarrow> int" where
  "Sigma1 x = rotr32 6 x XOR rotr32 11 x XOR rotr32 25 x"

definition sigma0 :: "int \<Rightarrow> int" where
  "sigma0 x = rotr32 7 x XOR rotr32 18 x XOR drop_bit 3 x"

definition sigma1 :: "int \<Rightarrow> int" where
  "sigma1 x = rotr32 17 x XOR rotr32 19 x XOR drop_bit 10 x"

definition sha256_K :: "int list" where
  "sha256_K =
    [1116352408, 1899447441, 3049323471, 3921009573, 961987163, 1508970993,
     2453635748, 2870763221, 3624381080, 310598401, 607225278, 1426881987,
     1925078388, 2162078206, 2614888103, 3248222580, 3835390401, 4022224774,
     264347078, 604807628, 770255983, 1249150122, 1555081692, 1996064986,
     2554220882, 2821834349, 2952996808, 3210313671, 3336571891, 3584528711,
     113926993, 338241895, 666307205, 773529912, 1294757372, 1396182291,
     1695183700, 1986661051, 2177026350, 2456956037, 2730485921, 2820302411,
     3259730800, 3345764771, 3516065817, 3600352804, 4094571909, 275423344,
     430227734, 506948616, 659060556, 883997877, 958139571, 1322822218,
     1537002063, 1747873779, 1955562222, 2024104815, 2227730452, 2361852424,
     2428436474, 2756734187, 3204031479, 3329325298]"

definition sha256_H0 :: "int list" where
  "sha256_H0 =
    [1779033703, 3144134277, 1013904242, 2773480762,
     1359893119, 2600822924, 528734635, 1541459225]"

fun be_int :: "int list \<Rightarrow> int" where
  "be_int bs = foldl (\<lambda>acc b. acc * 256 + b) 0 bs"

fun be_bytes :: "nat \<Rightarrow> int \<Rightarrow> int list" where
  "be_bytes 0 v = []"
| "be_bytes (Suc n) v = be_bytes n (v div 256) @ [v mod 256]"

fun chunks_of :: "nat \<Rightarrow> 'a list \<Rightarrow> 'a list list" where
  "chunks_of n [] = []"
| "chunks_of n (x # xs) =
    (if n = 0 then [] else take n (x # xs) # chunks_of n (drop n (x # xs)))"

text \<open>
  One round updates the eight working variables and slides the window of the last 16
  words of the message schedule.
\<close>

fun next_words :: "int \<Rightarrow> int \<Rightarrow> int list \<Rightarrow> int list" where
  "next_words t1 t2 [a, b, c, d, e, f, g, h] = [add32 t1 t2, a, b, c, add32 d t1, e, f, g]"
| "next_words t1 t2 vs = vs"

fun temp1 :: "int list \<Rightarrow> int \<Rightarrow> int \<Rightarrow> int" where
  "temp1 [a, b, c, d, e, f, g, h] k w =
    add32 (add32 (add32 (add32 h (Sigma1 e)) (Ch e f g)) k) w"
| "temp1 vs k w = 0"

fun temp2 :: "int list \<Rightarrow> int" where
  "temp2 (a # b # c # vs) = add32 (Sigma0 a) (Maj a b c)"
| "temp2 vs = 0"

fun next_schedule :: "int list \<Rightarrow> int list" where
  "next_schedule ws =
    tl ws @ [add32 (add32 (add32 (sigma1 (ws ! 14)) (ws ! 9)) (sigma0 (ws ! 1))) (ws ! 0)]"

fun sha256_round :: "int list \<times> int list \<Rightarrow> int \<Rightarrow> int list \<times> int list" where
  "sha256_round (vs, ws) k = (next_words (temp1 vs k (hd ws)) (temp2 vs) vs, next_schedule ws)"

definition sha256_compress :: "int list \<Rightarrow> int list \<Rightarrow> int list" where
  "sha256_compress hs block =
    map2 add32 hs (fst (foldl sha256_round (hs, map be_int (chunks_of 4 block)) sha256_K))"

definition sha256_pad :: "int list \<Rightarrow> int list" where
  "sha256_pad m =
    m @ [128] @ replicate ((119 - length m mod 64) mod 64) 0 @ be_bytes 8 (8 * int (length m))"

definition sha256_ints :: "int list \<Rightarrow> int list" where
  "sha256_ints m =
    concat (map (be_bytes 4) (foldl sha256_compress sha256_H0 (chunks_of 64 (sha256_pad m))))"

definition sha256 :: "bytes \<Rightarrow> bytes" where
  "sha256 m = map word_of_int (sha256_ints (map uint m))"

subsection \<open>Keccak-256\<close>

text \<open>
  The state is five rows of five 64-bit lanes; lane \<open>(x, y)\<close> is element \<open>x\<close> of row
  \<open>y\<close>. \<open>rho_pi_table\<close> gives, for each lane of the result, the index \<open>x + 5 * y\<close> of the
  lane it is taken from and the rotation.
\<close>

definition rotl64 :: "nat \<Rightarrow> int \<Rightarrow> int" where
  "rotl64 n x = take_bit 64 (push_bit n x) OR drop_bit (64 - n) x"

definition not64 :: "int \<Rightarrow> int" where
  "not64 x = x XOR 18446744073709551615"

definition xors :: "int list \<Rightarrow> int list \<Rightarrow> int list" where
  "xors xs ys = map2 (XOR) xs ys"

definition theta_d :: "int list \<Rightarrow> int list" where
  "theta_d c = xors (rotate1 (rotate1 (rotate1 (rotate1 c)))) (map (rotl64 1) (rotate1 c))"

definition theta :: "int list list \<Rightarrow> int list list" where
  "theta rows = map (xors (theta_d (foldl xors (hd rows) (tl rows)))) rows"

definition rho_pi_table :: "(nat \<times> nat) list list" where
  "rho_pi_table =
    [[(0, 0), (6, 44), (12, 43), (18, 21), (24, 14)],
     [(3, 28), (9, 20), (10, 3), (16, 45), (22, 61)],
     [(1, 1), (7, 6), (13, 25), (19, 8), (20, 18)],
     [(4, 27), (5, 36), (11, 10), (17, 15), (23, 56)],
     [(2, 62), (8, 55), (14, 39), (15, 41), (21, 2)]]"

definition rho_pi :: "int list list \<Rightarrow> int list list" where
  "rho_pi rows = map (map (\<lambda>(i, r). rotl64 r (concat rows ! i))) rho_pi_table"

definition chi_row :: "int list \<Rightarrow> int list" where
  "chi_row row = xors row (map2 (AND) (map not64 (rotate1 row)) (rotate1 (rotate1 row)))"

fun iota :: "int \<Rightarrow> int list list \<Rightarrow> int list list" where
  "iota rc ((a # row) # rows) = ((a XOR rc) # row) # rows"
| "iota rc rows = rows"

definition keccak_round :: "int list list \<Rightarrow> int \<Rightarrow> int list list" where
  "keccak_round rows rc = iota rc (map chi_row (rho_pi (theta rows)))"

definition keccak_RC :: "int list" where
  "keccak_RC =
    [0x0000000000000001, 0x0000000000008082, 0x800000000000808A, 0x8000000080008000,
     0x000000000000808B, 0x0000000080000001, 0x8000000080008081, 0x8000000000008009,
     0x000000000000008A, 0x0000000000000088, 0x0000000080008009, 0x000000008000000A,
     0x000000008000808B, 0x800000000000008B, 0x8000000000008089, 0x8000000000008003,
     0x8000000000008002, 0x8000000000000080, 0x000000000000800A, 0x800000008000000A,
     0x8000000080008081, 0x8000000000008080, 0x0000000080000001, 0x8000000080008008]"

definition keccak_f :: "int list list \<Rightarrow> int list list" where
  "keccak_f rows = foldl keccak_round rows keccak_RC"

fun le_int :: "int list \<Rightarrow> int" where
  "le_int bs = foldr (\<lambda>b acc. b + 256 * acc) bs 0"

fun le_bytes :: "nat \<Rightarrow> int \<Rightarrow> int list" where
  "le_bytes 0 v = []"
| "le_bytes (Suc n) v = (v mod 256) # le_bytes n (v div 256)"

definition keccak_pad :: "int list \<Rightarrow> int list" where
  "keccak_pad m =
    (if length m mod 136 = 135 then m @ [129]
     else m @ [1] @ replicate (134 - length m mod 136) 0 @ [128])"

definition keccak_absorb :: "int list list \<Rightarrow> int list \<Rightarrow> int list list" where
  "keccak_absorb rows block =
    keccak_f (map2 xors rows (chunks_of 5 (map le_int (chunks_of 8 block) @ replicate 8 0)))"

definition keccak256_ints :: "int list \<Rightarrow> int list" where
  "keccak256_ints m =
    concat (map (le_bytes 8) (take 4 (concat
      (foldl keccak_absorb (replicate 5 (replicate 5 0)) (chunks_of 136 (keccak_pad m))))))"

definition keccak256 :: "bytes \<Rightarrow> bytes32" where
  "keccak256 m = word_of_int (be_int (keccak256_ints (map uint m)))"

section \<open>The order registry: contract FusionResolver\<close>

text \<open>
  The Solidity contract \<^verbatim>\<open>FusionResolver\<close> is embedded with explicit state passing.
  A Solidity \<^verbatim>\<open>mapping\<close> is a total function whose default is the zero value, a
  \<^verbatim>\<open>uint256\<close>, a \<^verbatim>\<open>bytes32\<close> and an \<^verbatim>\<open>address\<close> are machine words, and a
  transaction that reverts returns the failure and leaves the storage as it was.
  Events are not part of the storage and are left out. The modifier
  \<^verbatim>\<open>nonReentrant\<close> guards against calls back into the contract; \<^verbatim>\<open>completeSwap\<close>
  makes no external call, so the guard never fires and is left out as well.
\<close>

datatype SwapStatus = Pending | Completed | Refunded | Expired

record SwapOrder =
  user :: address
  tokenOut :: address
  amountOut :: uint256
  bitcoinTxHash :: bytes32
  secretHash :: bytes32
  lockTime :: uint256
  createdAt :: uint256
  status :: SwapStatus

record FusionResolver =
  swapOrders :: "bytes32 \<Rightarrow> SwapOrder"
  usedSecrets :: "bytes32 \<Rightarrow> bool"
  processedBitcoinTxs :: "bytes32 \<Rightarrow> bool"
  authorizedOracles :: "address \<Rightarrow> bool"
  owner :: address

text \<open>The transaction context: \<^verbatim>\<open>msg.sender\<close> and \<^verbatim>\<open>block.timestamp\<close>.\<close>

record env =
  msg_sender :: address
  block_timestamp :: uint256

text \<open>
  A failed call: a \<^verbatim>\<open>require\<close> that reverts with its message, or the panic of
  Solidity 0.8's checked arithmetic (code 0x11 on overflow).
\<close>

datatype failure = Revert string | Panic nat

definition SWAP_TIMEOUT :: uint256 where
  "SWAP_TIMEOUT = 24 * 60 * 60"

definition MIN_CONFIRMATIONS :: uint256 where
  "MIN_CONFIRMATIONS = 3"

text \<open>Checked addition of Solidity 0.8: the sum, or the overflow panic.\<close>

definition checked_add :: "uint256 \<Rightarrow> uint256 \<Rightarrow> failure + uint256" where
  "checked_add a b = (if unat a + unat b < 2 ^ 256 then Inr (a + b) else Inl (Panic 17))"

text \<open>The storage of an unused slot, and the storage the constructor leaves.\<close>

definition zero_order :: SwapOrder where
  "zero_order = \<lparr>user = 0, tokenOut = 0, amountOut = 0, bitcoinTxHash = 0, secretHash = 0,
     lockTime = 0, createdAt = 0, status = Pending\<rparr>"

definition deploy :: "address \<Rightarrow> FusionResolver" where
  "deploy deployer = \<lparr>swapOrders = (\<lambda>_. zero_order), usedSecrets = (\<lambda>_. False),
     processedBitcoinTxs = (\<lambda>_. False), authorizedOracles = (\<lambda>a. a = deployer),
     owner = deployer\<rparr>"

definition initiateSwap ::
  "env \<Rightarrow> FusionResolver \<Rightarrow> bytes32 \<Rightarrow> address \<Rightarrow> uint256 \<Rightarrow> bytes32 \<Rightarrow> bytes32 \<Rightarrow> uint256
    \<Rightarrow> failure + FusionResolver" where
  "initiateSwap e st swapId tokenOut' amountOut' bitcoinTxHash' secretHash' lockTime' =
    (if user (swapOrders st swapId) \<noteq> 0 then Inl (Revert ''Swap already exists'')
     else if tokenOut' = 0 then Inl (Revert ''Invalid token address'')
     else if \<not> amountOut' > 0 then Inl (Revert ''Invalid amount'')
     else if \<not> lockTime' > block_timestamp e then Inl (Revert ''Invalid lock time'')
     else Inr (st\<lparr>swapOrders := (swapOrders st)(swapId :=
       \<lparr>user = msg_sender e, tokenOut = tokenOut', amountOut = amountOut',
        bitcoinTxHash = bitcoinTxHash', secretHash = secretHash', lockTime = lockTime',
        createdAt = block_timestamp e, status = Pending\<rparr>)\<rparr>))"

definition verifyBitcoinTransaction :: "bytes32 \<Rightarrow> bytes \<Rightarrow> bytes32 list \<Rightarrow> bool" where
  "verifyBitcoinTransaction txHash txProof merkleProof =
    (length txProof > 0 \<and> length merkleProof > 0)"

definition executeFusionSwap :: "SwapOrder \<Rightarrow> failure + unit" where
  "executeFusionSwap order =
    (if \<not> amountOut order > 0 then Inl (Revert ''Invalid amount for swap execution'')
     else Inr ())"

text \<open>
  \<^verbatim>\<open>abi.encodePacked\<close> of a \<^verbatim>\<open>bytes32\<close> is its 32 bytes, the most significant first.
\<close>

fun word_bytes :: "nat \<Rightarrow> bytes32 \<Rightarrow> bytes" where
  "word_bytes 0 w = []"
| "word_bytes (Suc n) w = word_bytes n (drop_bit 8 w) @ [ucast w]"

definition abi_encodePacked :: "bytes32 \<Rightarrow> bytes" where
  "abi_encodePacked w = word_bytes 32 w"

text \<open>
  The other way round: the \<^verbatim>\<open>bytes32\<close> argument a caller makes from 32 bytes
  (\<^verbatim>\<open>ethers.zeroPadValue(..., 32)\<close> in the coordinator).
\<close>

definition to_bytes32 :: "bytes \<Rightarrow> bytes32" where
  "to_bytes32 bs = foldl (\<lambda>acc b. push_bit 8 acc OR ucast b) 0 bs"

definition completeSwap ::
  "env \<Rightarrow> FusionResolver \<Rightarrow> bytes32 \<Rightarrow> bytes32 \<Rightarrow> bytes \<Rightarrow> bytes32 list
    \<Rightarrow> failure + FusionResolver" where
  "completeSwap e st swapId secret bitcoinTxProof merkleProof =
    (let order = swapOrders st swapId in
     if \<not> user order \<noteq> 0 then Inl (Revert ''Swap does not exist'')
     else if \<not> status order = Pending then Inl (Revert ''Swap not pending'')
     else if \<not> block_timestamp e \<le> lockTime order then Inl (Revert ''Swap expired'')
     else if \<not> keccak256 (abi_encodePacked secret) = secretHash order then Inl (Revert ''Invalid secret'')
     else if \<not> \<not> usedSecrets st secret then Inl (Revert ''Secret already used'')
     else if \<not> verifyBitcoinTransaction (bitcoinTxHash order) bitcoinTxProof merkleProof
       then Inl (Revert ''Invalid Bitcoin transaction proof'')
     else
       let order' = order\<lparr>status := Completed\<rparr> in
       case executeFusionSwap order' of
         Inl f \<Rightarrow> Inl f
       | Inr _ \<Rightarrow> Inr (st\<lparr>usedSecrets := (usedSecrets st)(secret := True),
           processedBitcoinTxs := (processedBitcoinTxs st)(bitcoinTxHash order := True),
           swapOrders := (swapOrders st)(swapId := order')\<rparr>))"

definition refundSwap :: "env \<Rightarrow> FusionResolver \<Rightarrow> bytes32 \<Rightarrow> string \<Rightarrow> failure + FusionResolver" where
  "refundSwap e st swapId reason =
    (let order = swapOrders st swapId in
     if \<not> user order \<noteq> 0 then Inl (Revert ''Swap does not exist'')
     else if \<not> status order = Pending then Inl (Revert ''Swap not pending'')
     else if block_timestamp e > lockTime order
       then Inr (st\<lparr>swapOrders := (swapOrders st)(swapId := order\<lparr>status := Refunded\<rparr>)\<rparr>)
     else case checked_add (createdAt order) SWAP_TIMEOUT of
         Inl f \<Rightarrow> Inl f
       | Inr deadline \<Rightarrow>
           if \<not> block_timestamp e > deadline then Inl (Revert ''Swap not expired'')
           else Inr (st\<lparr>swapOrders := (swapOrders st)(swapId := order\<lparr>status := Refunded\<rparr>)\<rparr>))"

definition submitBitcoinProof ::
  "env \<Rightarrow> FusionResolver \<Rightarrow> bytes32 \<Rightarrow> bytes32 \<Rightarrow> uint256 \<Rightarrow> bool \<Rightarrow> failure + FusionResolver" where
  "submitBitcoinProof e st swapId bitcoinTxHash' confirmations isValid =
    (let order = swapOrders st swapId in
     if \<not> authorizedOracles st (msg_sender e) then Inl (Revert ''Not authorized oracle'')
     else if \<not> user order \<noteq> 0 then Inl (Revert ''Swap does not exist'')
     else if \<not> bitcoinTxHash order = bitcoinTxHash' then Inl (Revert ''Hash mismatch'')
     else if \<not> confirmations \<ge> MIN_CONFIRMATIONS then Inl (Revert ''Insufficient confirmations'')
     else if isValid
       then Inr (st\<lparr>processedBitcoinTxs := (processedBitcoinTxs st)(bitcoinTxHash' := True)\<rparr>)
     else Inr st)"

text \<open>
  The owner's entry points. \<^verbatim>\<open>onlyOwner\<close> comes from OpenZeppelin's \<^verbatim>\<open>Ownable\<close>,
  which the contract inherits; \<^verbatim>\<open>pause\<close> and \<^verbatim>\<open>recoverTokens\<close> have empty bodies.
\<close>

definition onlyOwner :: "env \<Rightarrow> FusionResolver \<Rightarrow> FusionResolver \<Rightarrow> failure + FusionResolver" where
  "onlyOwner e st st' =
    (if owner st \<noteq> msg_sender e then Inl (Revert ''Ownable: caller is not the owner'')
     else Inr st')"

definition addAuthorizedOracle :: "env \<Rightarrow> FusionResolver \<Rightarrow> address \<Rightarrow> failure + FusionResolver" where
  "addAuthorizedOracle e st oracle =
    onlyOwner e st (st\<lparr>authorizedOracles := (authorizedOracles st)(oracle := True)\<rparr>)"

definition removeAuthorizedOracle :: "env \<Rightarrow> FusionResolver \<Rightarrow> address \<Rightarrow> failure + FusionResolver" where
  "removeAuthorizedOracle e st oracle =
    onlyOwner e st (st\<lparr>authorizedOracles := (authorizedOracles st)(oracle := False)\<rparr>)"

definition pause :: "env \<Rightarrow> FusionResolver \<Rightarrow> failure + FusionResolver" where
  "pause e st = onlyOwner e st st"

definition recoverTokens :: "env \<Rightarrow> FusionResolver \<Rightarrow> address \<Rightarrow> uint256 \<Rightarrow> failure + FusionResolver" where
  "recoverTokens e st token amount = onlyOwner e st st"

text \<open>The two state-changing entry points inherited from \<^verbatim>\<open>Ownable\<close>.\<close>

definition transferOwnership :: "env \<Rightarrow> FusionResolver \<Rightarrow> address \<Rightarrow> failure + FusionResolver" where
  "transferOwnership e st newOwner =
    (if owner st \<noteq> msg_sender e then Inl (Revert ''Ownable: caller is not the owner'')
     else if newOwner = 0 then Inl (Revert ''Ownable: new owner is the zero address'')
     else Inr (st\<lparr>owner := newOwner\<rparr>))"

definition renounceOwnership :: "env \<Rightarrow> FusionResolver \<Rightarrow> failure + FusionResolver" where
  "renounceOwnership e st = onlyOwner e st (st\<lparr>owner := 0\<rparr>)"

text \<open>The views.\<close>

definition getSwapOrder :: "FusionResolver \<Rightarrow> bytes32 \<Rightarrow> SwapOrder" where
  "getSwapOrder st swapId = swapOrders st swapId"

definition isSwapExpired :: "env \<Rightarrow> FusionResolver \<Rightarrow> bytes32 \<Rightarrow> failure + bool" where
  "isSwapExpired e st swapId =
    (let order = swapOrders st swapId in
     if block_timestamp e > lockTime order then Inr True
     else case checked_add (createdAt order) SWAP_TIMEOUT of
         Inl f \<Rightarrow> Inl f
       | Inr deadline \<Rightarrow> Inr (block_timestamp e > deadline))"

subsection \<open>Transactions and reachable storage\<close>

text \<open>
  Every state-changing entry point of the contract as a call; a transaction is a call in
  its context. A transaction that fails leaves the storage unchanged.
\<close>

datatype call =
    InitiateSwap bytes32 address uint256 bytes32 bytes32 uint256
  | CompleteSwap bytes32 bytes32 bytes "bytes32 list"
  | RefundSwap bytes32 string
  | SubmitBitcoinProof bytes32 bytes32 uint256 bool
  | AddAuthorizedOracle address
  | RemoveAuthorizedOracle address
  | PauseContract
  | RecoverTokens address uint256
  | TransferOwnership address
  | RenounceOwnership

fun dispatch :: "env \<Rightarrow> FusionResolver \<Rightarrow> call \<Rightarrow> failure + FusionResolver" where
  "dispatch e st (InitiateSwap i t a b h l) = initiateSwap e st i t a b h l"
| "dispatch e st (CompleteSwap i s p m) = completeSwap e st i s p m"
| "dispatch e st (RefundSwap i r) = refundSwap e st i r"
| "dispatch e st (SubmitBitcoinProof i b c v) = submitBitcoinProof e st i b c v"
| "dispatch e st (AddAuthorizedOracle a) = addAuthorizedOracle e st a"
| "dispatch e st (RemoveAuthorizedOracle a) = removeAuthorizedOracle e st a"
| "dispatch e st PauseContract = pause e st"
| "dispatch e st (RecoverTokens t a) = recoverTokens e st t a"
| "dispatch e st (TransferOwnership a) = transferOwnership e st a"
| "dispatch e st RenounceOwnership = renounceOwnership e st"

definition transact :: "FusionResolver \<Rightarrow> env \<times> call \<Rightarrow> FusionResolver" where
  "transact st tx = (case dispatch (fst tx) st (snd tx) of Inl _ \<Rightarrow> st | Inr st' \<Rightarrow> st')"

definition run :: "FusionResolver \<Rightarrow> (env \<times> call) list \<Rightarrow> FusionResolver" where
  "run st txs = foldl transact st txs"

text \<open>An order is registered when its \<^verbatim>\<open>user\<close> is set: the contract's own test.\<close>

definition registered :: "FusionResolver \<Rightarrow> bytes32 \<Rightarrow> bool" where
  "registered st swapId = (user (swapOrders st swapId) \<noteq> 0)"

definition terminal :: "SwapStatus \<Rightarrow> bool" where
  "terminal s = (s = Completed \<or> s = Refunded \<or> s = Expired)"

text \<open>The calls that register an order under a given id.\<close>

fun initiates :: "bytes32 \<Rightarrow> call \<Rightarrow> bool" where
  "initiates swapId (InitiateSwap i t a b h l) = (i = swapId)"
| "initiates swapId c = False"

section \<open>The Bitcoin side: bitcoin/htlc.js\<close>

text \<open>
  A \<^verbatim>\<open>Buffer\<close> is a list of bytes, a JavaScript number that counts satoshis or
  milliseconds is an integer. The class builds transactions with the libraries
  \<^verbatim>\<open>bitcoinjs-lib\<close> and \<^verbatim>\<open>ecpair\<close>, which are not part of the repository. Where the
  repository's code depends on what the library does with the data, that is written
  out: the encoding of scripts (\<^verbatim>\<open>script.compile\<close>, \<^verbatim>\<open>script.decompile\<close>,
  \<^verbatim>\<open>script.number.encode\<close>), the script a P2SH payment puts into an input, and the
  inputs and outputs a \<^verbatim>\<open>Psbt\<close> collects and hands back as a transaction. Whether the
  library accepts a call or throws (parsing the private key, adding an input or an
  output, signing, finalizing, the checks on the finished transaction) is decided by the
  library alone; the model takes these decisions as a parameter, and every call that
  can throw is a branch of the builder.
\<close>

subsection \<open>Script encoding\<close>

datatype js_error = TypeError | RangeError

datatype chunk = Opcode nat | Data bytes

definition OP_0 :: nat where "OP_0 = 0"
definition OP_PUSHDATA1 :: nat where "OP_PUSHDATA1 = 76"
definition OP_PUSHDATA2 :: nat where "OP_PUSHDATA2 = 77"
definition OP_PUSHDATA4 :: nat where "OP_PUSHDATA4 = 78"
definition OP_1NEGATE :: nat where "OP_1NEGATE = 79"
definition OP_RESERVED :: nat where "OP_RESERVED = 80"
definition OP_TRUE :: nat where "OP_TRUE = 81"
definition OP_FALSE :: nat where "OP_FALSE = 0"

text \<open>A buffer that a single opcode pushes as well (the minimal-push rule).\<close>

definition asMinimalOP :: "bytes \<Rightarrow> nat option" where
  "asMinimalOP buffer =
    (if length buffer = 0 then Some OP_0
     else if length buffer \<noteq> 1 then None
     else if unat (buffer ! 0) \<ge> 1 \<and> unat (buffer ! 0) \<le> 16
       then Some (OP_RESERVED + unat (buffer ! 0))
     else if unat (buffer ! 0) = 129 then Some OP_1NEGATE
     else None)"

text \<open>An unsigned integer in a given number of bytes, the least significant first.\<close>

fun uintLE :: "nat \<Rightarrow> nat \<Rightarrow> bytes" where
  "uintLE 0 v = []"
| "uintLE (Suc n) v = of_nat (v mod 256) # uintLE n (v div 256)"

fun readUIntLE :: "bytes \<Rightarrow> nat" where
  "readUIntLE [] = 0"
| "readUIntLE (b # bs) = unat b + 256 * readUIntLE bs"

text \<open>
  The length prefix of a data push. Node's \<^verbatim>\<open>writeUInt32LE\<close> refuses a length
  that does not fit four bytes.
\<close>

definition pushdata_encode :: "nat \<Rightarrow> js_error + bytes" where
  "pushdata_encode number =
    (if number < OP_PUSHDATA1 then Inr [of_nat number]
     else if number \<le> 255 then Inr (of_nat OP_PUSHDATA1 # uintLE 1 number)
     else if number \<le> 65535 then Inr (of_nat OP_PUSHDATA2 # uintLE 2 number)
     else if number \<le> 4294967295 then Inr (of_nat OP_PUSHDATA4 # uintLE 4 number)
     else Inl RangeError)"

text \<open>Reads a length prefix: the length and the size of the prefix.\<close>

definition pushdata_decode :: "bytes \<Rightarrow> (nat \<times> nat) option" where
  "pushdata_decode buffer =
    (let opcode = unat (buffer ! 0) in
     if opcode < OP_PUSHDATA1 then Some (opcode, 1)
     else if opcode = OP_PUSHDATA1 then
       (if 2 > length buffer then None else Some (readUIntLE (take 1 (drop 1 buffer)), 2))
     else if opcode = OP_PUSHDATA2 then
       (if 3 > length buffer then None else Some (readUIntLE (take 2 (drop 1 buffer)), 3))
     else
       (if 5 > length buffer then None else Some (readUIntLE (take 4 (drop 1 buffer)), 5)))"

fun compile :: "chunk list \<Rightarrow> js_error + bytes" where
  "compile [] = Inr []"
| "compile (Data d # chunks) =
    (case asMinimalOP d of
       Some opcode \<Rightarrow>
         (case compile chunks of Inl err \<Rightarrow> Inl err | Inr rest \<Rightarrow> Inr (of_nat opcode # rest))
     | None \<Rightarrow>
         (case pushdata_encode (length d) of
            Inl err \<Rightarrow> Inl err
          | Inr header \<Rightarrow>
              (case compile chunks of Inl err \<Rightarrow> Inl err | Inr rest \<Rightarrow> Inr (header @ d @ rest))))"
| "compile (Opcode n # chunks) =
    (if n > 255 then Inl RangeError
     else case compile chunks of Inl err \<Rightarrow> Inl err | Inr rest \<Rightarrow> Inr (of_nat n # rest))"

text \<open>
  \<^verbatim>\<open>decompile\<close> walks the buffer from the front; the model recurses on what is left
  of it. \<open>None\<close> is the library's \<^verbatim>\<open>null\<close>.
\<close>

function decompile :: "bytes \<Rightarrow> chunk list option" where
  "decompile [] = Some []"
| "decompile (b # bs) =
    (if unat b > OP_0 \<and> unat b \<le> OP_PUSHDATA4 then
       (case pushdata_decode (b # bs) of
          None \<Rightarrow> None
        | Some (number, n) \<Rightarrow>
            if n + number > length (b # bs) then None
            else
              (case decompile (drop (n + number) (b # bs)) of
                 None \<Rightarrow> None
               | Some chunks \<Rightarrow>
                   (case asMinimalOP (take number (drop n (b # bs))) of
                      Some opcode \<Rightarrow> Some (Opcode opcode # chunks)
                    | None \<Rightarrow> Some (Data (take number (drop n (b # bs))) # chunks))))
     else
       (case decompile bs of
          None \<Rightarrow> None
        | Some chunks \<Rightarrow> Some (Opcode (unat b) # chunks)))"
  by pat_completeness auto
termination
  by (relation "measure length")
    (auto simp: pushdata_decode_def Let_def split: if_splits)

subsection \<open>The HTLC builder\<close>

text \<open>
  \<^verbatim>\<open>generateSecret\<close> draws 32 bytes from \<^verbatim>\<open>crypto.randomBytes\<close>; the model takes the
  bytes drawn as its argument and returns the pair of the secret and its hash.
\<close>

definition generateSecret :: "bytes \<Rightarrow> bytes \<times> bytes" where
  "generateSecret randomBytes = (randomBytes, sha256 randomBytes)"

text \<open>\<^verbatim>\<open>Buffer.toString('hex')\<close>: two lower-case digits a byte.\<close>

definition hex_digit :: "nat \<Rightarrow> char" where
  "hex_digit n = ''0123456789abcdef'' ! n"

definition toHex :: "bytes \<Rightarrow> string" where
  "toHex buffer = concat (map (\<lambda>b. [hex_digit (unat b div 16), hex_digit (unat b mod 16)]) buffer)"

text \<open>The objects the builder makes and is given, and the transaction it returns.\<close>

record htlcOutput =
  htlc_script :: bytes
  htlc_address :: string
  htlc_amount :: int
  htlc_lockTime :: int
  htlc_hash :: string

text \<open>The placeholder of the source: 33 zero bytes for every address.\<close>

definition addressToPubKey :: "string \<Rightarrow> bytes" where
  "addressToPubKey address' = replicate 33 0"

text \<open>
  \<^verbatim>\<open>createHTLCOutput\<close> calls \<^verbatim>\<open>createHTLCScript\<close> and \<^verbatim>\<open>createP2SHAddress\<close>, each a
  single call into the library (the compiled script with its number encoding, the
  Base58 address of the script's hash). The model takes the two as arguments; the
  script itself is written out at the end of this section.
\<close>

definition createHTLCOutput ::
  "(bytes \<Rightarrow> bytes \<Rightarrow> bytes \<Rightarrow> int \<Rightarrow> bytes) \<Rightarrow> (bytes \<Rightarrow> string)
    \<Rightarrow> bytes \<Rightarrow> string \<Rightarrow> string \<Rightarrow> int \<Rightarrow> int \<Rightarrow> htlcOutput" where
  "createHTLCOutput createHTLCScript createP2SHAddress hash recipientAddress refundAddress
      lockTime' amount =
    (let recipientPubKey = addressToPubKey recipientAddress;
         refundPubKey = addressToPubKey refundAddress;
         script = createHTLCScript hash recipientPubKey refundPubKey lockTime';
         address' = createP2SHAddress script
     in \<lparr>htlc_script = script, htlc_address = address', htlc_amount = amount,
         htlc_lockTime = lockTime', htlc_hash = toHex hash\<rparr>)"

record utxo =
  utxo_txid :: string
  utxo_vout :: nat
  utxo_scriptPubKey :: string
  utxo_value :: int

record txin =
  in_hash :: string
  in_index :: nat
  in_script :: bytes
  in_sequence :: nat

record txout =
  out_address :: string
  out_value :: int

record transaction =
  ins :: "txin list"
  outs :: "txout list"
  tx_locktime :: int

subsection \<open>The library's transaction builder\<close>

text \<open>
  A \<^verbatim>\<open>Psbt\<close> holds the inputs added so far, each with the previous output and redeem
  script the code gave it and the final script once the input is finalized, the
  outputs, and the lock time. The signatures \<^verbatim>\<open>signInput\<close> stores are left out: the
  repository's code never reads them.
\<close>

record psbtInput =
  pi_hash :: string
  pi_index :: nat
  pi_sequence :: "nat option"
  pi_witnessUtxo_script :: bytes
  pi_witnessUtxo_value :: int
  pi_redeemScript :: bytes
  pi_finalScriptSig :: "bytes option"

record psbt =
  psbt_inputs :: "psbtInput list"
  psbt_outputs :: "txout list"
  psbt_locktime :: int

definition new_Psbt :: psbt where
  "new_Psbt = \<lparr>psbt_inputs = [], psbt_outputs = [], psbt_locktime = 0\<rparr>"

text \<open>
  The decisions of the library. \<open>lib_fromWIF\<close> is \<^verbatim>\<open>ECPairFactory.fromWIF\<close> on the
  network of the class, \<open>None\<close> where it throws; a key pair is given by its public key.
  The others tell whether the call is accepted in the state the \<^verbatim>\<open>Psbt\<close> is in:
  \<^verbatim>\<open>setLocktime\<close>, \<^verbatim>\<open>addInput\<close>, \<^verbatim>\<open>addOutput\<close>, \<^verbatim>\<open>signInput\<close>, the checks of
  \<^verbatim>\<open>finalizeInput\<close> before it calls the finalizer it is given and when it stores the
  script the finalizer returns, the validation \<^verbatim>\<open>payments.p2sh\<close> makes of a redeem
  script and its input, and the checks of \<^verbatim>\<open>extractTransaction\<close> (every input
  finalized, the fee).
\<close>

type_synonym keyPair = bytes

record library =
  lib_fromWIF :: "string \<Rightarrow> keyPair option"
  lib_setLocktime :: "psbt \<Rightarrow> int \<Rightarrow> bool"
  lib_addInput :: "psbt \<Rightarrow> psbtInput \<Rightarrow> bool"
  lib_addOutput :: "psbt \<Rightarrow> txout \<Rightarrow> bool"
  lib_signInput :: "psbt \<Rightarrow> nat \<Rightarrow> keyPair \<Rightarrow> bool"
  lib_finalizeInput :: "psbt \<Rightarrow> nat \<Rightarrow> bool"
  lib_finalScriptSig :: "psbt \<Rightarrow> nat \<Rightarrow> bytes \<Rightarrow> bool"
  lib_p2sh :: "bytes \<Rightarrow> bytes \<Rightarrow> bool"
  lib_extractTransaction :: "psbt \<Rightarrow> bool"

text \<open>What the builder throws: the call into the library that threw, or a script error.\<close>

datatype library_call =
  FromWIF | SetLocktime | AddInput | AddOutput | SignInput | FinalizeInput | P2SH
  | ExtractTransaction

datatype thrown = Library library_call | Script js_error

text \<open>
  \<^verbatim>\<open>Buffer.from(string, 'hex')\<close> reads two digits a byte and stops at the first pair
  that is not hexadecimal.
\<close>

definition hex_value :: "char \<Rightarrow> nat option" where
  "hex_value c =
    (let n = (of_char c :: nat) in
     if 48 \<le> n \<and> n \<le> 57 then Some (n - 48)
     else if 97 \<le> n \<and> n \<le> 102 then Some (n - 87)
     else if 65 \<le> n \<and> n \<le> 70 then Some (n - 55)
     else None)"

fun fromHex :: "string \<Rightarrow> bytes" where
  "fromHex (a # b # rest) =
    (case (hex_value a, hex_value b) of
       (Some x, Some y) \<Rightarrow> of_nat (16 * x + y) # fromHex rest
     | _ \<Rightarrow> [])"
| "fromHex rest = []"

text \<open>
  The first loop of both builders: \<^verbatim>\<open>addInput\<close> for every entry of \<^verbatim>\<open>utxos\<close>, with the
  sequence number the refund sets and the claim leaves to the library.
\<close>

fun addInputs :: "library \<Rightarrow> htlcOutput \<Rightarrow> nat option \<Rightarrow> utxo list \<Rightarrow> psbt \<Rightarrow> thrown + psbt" where
  "addInputs lib htlc sequence [] psbt = Inr psbt"
| "addInputs lib htlc sequence (u # utxos) psbt =
    (let inputData = \<lparr>pi_hash = utxo_txid u, pi_index = utxo_vout u, pi_sequence = sequence,
           pi_witnessUtxo_script = fromHex (utxo_scriptPubKey u),
           pi_witnessUtxo_value = utxo_value u,
           pi_redeemScript = htlc_script htlc, pi_finalScriptSig = None\<rparr>
     in if lib_addInput lib psbt inputData
        then addInputs lib htlc sequence utxos (psbt\<lparr>psbt_inputs := psbt_inputs psbt @ [inputData]\<rparr>)
        else Inl (Library AddInput))"

text \<open>
  The \<^verbatim>\<open>input\<close> of \<^verbatim>\<open>payments.p2sh({redeem: {output, input}})\<close>: the chunks of the
  redeem input followed by the redeem script as one push.
\<close>

definition p2sh_input :: "bytes \<Rightarrow> bytes \<Rightarrow> js_error + bytes" where
  "p2sh_input redeem_output redeem_input =
    (case decompile redeem_input of
       None \<Rightarrow> Inl TypeError
     | Some chunks \<Rightarrow> compile (chunks @ [Data redeem_output]))"

text \<open>
  The finalizer both builders pass to \<^verbatim>\<open>finalizeInput\<close>. It ignores the input it is
  given, and so the signature: the final script is made of the builder's own script and
  the redeem script alone.
\<close>

definition finalizer :: "library \<Rightarrow> htlcOutput \<Rightarrow> bytes \<Rightarrow> thrown + bytes" where
  "finalizer lib htlc witnessScript =
    (if lib_p2sh lib (htlc_script htlc) witnessScript
     then (case p2sh_input (htlc_script htlc) witnessScript of
             Inl err \<Rightarrow> Inl (Script err)
           | Inr finalScriptSig \<Rightarrow> Inr finalScriptSig)
     else Inl (Library P2SH))"

text \<open>
  The second loop of both builders, over the indices of \<^verbatim>\<open>utxos\<close>: compile the
  builder's script from its chunks, sign the input, finalize it.
\<close>

fun signInputs ::
  "library \<Rightarrow> htlcOutput \<Rightarrow> chunk list \<Rightarrow> keyPair \<Rightarrow> nat list \<Rightarrow> psbt \<Rightarrow> thrown + psbt" where
  "signInputs lib htlc chunks keyPair [] psbt = Inr psbt"
| "signInputs lib htlc chunks keyPair (index # rest) psbt =
    (case compile chunks of
       Inl err \<Rightarrow> Inl (Script err)
     | Inr witnessScript \<Rightarrow>
         if \<not> lib_signInput lib psbt index keyPair then Inl (Library SignInput)
         else if \<not> lib_finalizeInput lib psbt index then Inl (Library FinalizeInput)
         else
           (case finalizer lib htlc witnessScript of
              Inl err \<Rightarrow> Inl err
            | Inr finalScriptSig \<Rightarrow>
                if \<not> lib_finalScriptSig lib psbt index finalScriptSig
                then Inl (Library FinalizeInput)
                else
                  signInputs lib htlc chunks keyPair rest
                    (psbt\<lparr>psbt_inputs := (psbt_inputs psbt)
                       [index := (psbt_inputs psbt ! index)\<lparr>pi_finalScriptSig := Some finalScriptSig\<rparr>]\<rparr>)))"

text \<open>
  \<^verbatim>\<open>extractTransaction\<close>: the transaction of the inputs with their final scripts (a
  sequence number the code did not set is the library's default) and the outputs.
\<close>

definition extractTransaction :: "library \<Rightarrow> psbt \<Rightarrow> thrown + transaction" where
  "extractTransaction lib psbt =
    (if lib_extractTransaction lib psbt
     then Inr \<lparr>ins = map (\<lambda>i. \<lparr>in_hash = pi_hash i, in_index = pi_index i,
                   in_script = (case pi_finalScriptSig i of Some script \<Rightarrow> script | None \<Rightarrow> []),
                   in_sequence = (case pi_sequence i of Some n \<Rightarrow> n | None \<Rightarrow> 4294967295)\<rparr>)
                 (psbt_inputs psbt),
               outs = psbt_outputs psbt,
               tx_locktime = psbt_locktime psbt\<rparr>
     else Inl (Library ExtractTransaction))"

subsection \<open>The claim and the refund\<close>

definition createClaimTransaction ::
  "library \<Rightarrow> htlcOutput \<Rightarrow> bytes \<Rightarrow> string \<Rightarrow> string \<Rightarrow> utxo list \<Rightarrow> thrown + transaction" where
  "createClaimTransaction lib htlcOutput secret recipientPrivateKey destinationAddress utxos =
    (case lib_fromWIF lib recipientPrivateKey of
       None \<Rightarrow> Inl (Library FromWIF)
     | Some keyPair \<Rightarrow>
         (case addInputs lib htlcOutput None utxos new_Psbt of
            Inl err \<Rightarrow> Inl err
          | Inr psbt \<Rightarrow>
              let fee = 1000;
                  outputAmount = htlc_amount htlcOutput - fee;
                  output = \<lparr>out_address = destinationAddress, out_value = outputAmount\<rparr>
              in if \<not> lib_addOutput lib psbt output then Inl (Library AddOutput)
                 else
                   (case signInputs lib htlcOutput [Data secret, Opcode OP_TRUE] keyPair
                           [0..<length utxos]
                           (psbt\<lparr>psbt_outputs := psbt_outputs psbt @ [output]\<rparr>) of
                      Inl err \<Rightarrow> Inl err
                    | Inr finalized \<Rightarrow> extractTransaction lib finalized)))"

text \<open>
  \<^verbatim>\<open>createRefundTransaction\<close> differs in the lock time it sets first, the sequence
  number of its inputs and the script of its inputs, which pushes \<^verbatim>\<open>OP_FALSE\<close> and the
  redeem script.
\<close>

definition createRefundTransaction ::
  "library \<Rightarrow> htlcOutput \<Rightarrow> string \<Rightarrow> string \<Rightarrow> utxo list \<Rightarrow> thrown + transaction" where
  "createRefundTransaction lib htlcOutput refundPrivateKey refundAddress utxos =
    (case lib_fromWIF lib refundPrivateKey of
       None \<Rightarrow> Inl (Library FromWIF)
     | Some keyPair \<Rightarrow>
         if \<not> lib_setLocktime lib new_Psbt (htlc_lockTime htlcOutput) then Inl (Library SetLocktime)
         else
           (case addInputs lib htlcOutput (Some 4294967294) utxos
                   (new_Psbt\<lparr>psbt_locktime := htlc_lockTime htlcOutput\<rparr>) of
              Inl err \<Rightarrow> Inl err
            | Inr psbt \<Rightarrow>
                let fee = 1000;
                    outputAmount = htlc_amount htlcOutput - fee;
                    output = \<lparr>out_address = refundAddress, out_value = outputAmount\<rparr>
                in if \<not> lib_addOutput lib psbt output then Inl (Library AddOutput)
                   else
                     (case signInputs lib htlcOutput [Opcode OP_FALSE] keyPair
                             [0..<length utxos]
                             (psbt\<lparr>psbt_outputs := psbt_outputs psbt @ [output]\<rparr>) of
                        Inl err \<Rightarrow> Inl err
                      | Inr finalized \<Rightarrow> extractTransaction lib finalized)))"

text \<open>
  \<^verbatim>\<open>extractSecretFromTransaction\<close> parses the transaction's hex and scans its inputs
  in order. The model starts from the parsed transaction; \<open>None\<close> is \<^verbatim>\<open>null\<close>.
\<close>

fun scan_inputs :: "txin list \<Rightarrow> bytes \<Rightarrow> bytes option" where
  "scan_inputs [] expectedHash = None"
| "scan_inputs (input # rest) expectedHash =
    (case decompile (in_script input) of
       Some (Data potentialSecret # _) \<Rightarrow>
         if length potentialSecret = 32 \<and> sha256 potentialSecret = expectedHash
         then Some potentialSecret
         else scan_inputs rest expectedHash
     | _ \<Rightarrow> scan_inputs rest expectedHash)"

definition extractSecretFromTransaction :: "transaction \<Rightarrow> bytes \<Rightarrow> bytes option" where
  "extractSecretFromTransaction tx expectedHash = scan_inputs (ins tx) expectedHash"

subsection \<open>The HTLC script\<close>

text \<open>
  \<^verbatim>\<open>script.number.encode\<close>: the magnitude in as many bytes as it needs, the least
  significant first, and the sign in the top bit of the last byte. The loop of the
  library shifts with \<^verbatim>\<open>>>=\<close>, which works on 32 bits.
\<close>

definition scriptNumSize :: "int \<Rightarrow> nat" where
  "scriptNumSize i =
    (if i > 2147483647 then 5 else if i > 8388607 then 4 else if i > 32767 then 3
     else if i > 127 then 2 else if i > 0 then 1 else 0)"

definition toInt32 :: "int \<Rightarrow> int" where
  "toInt32 v = (v + 2147483648) mod 4294967296 - 2147483648"

fun number_bytes :: "nat \<Rightarrow> int \<Rightarrow> bytes" where
  "number_bytes 0 v = []"
| "number_bytes (Suc n) v = of_int (toInt32 v mod 256) # number_bytes n (toInt32 v div 256)"

definition script_number_encode :: "int \<Rightarrow> bytes" where
  "script_number_encode number =
    (let v = \<bar>number\<bar>;
         n = scriptNumSize v;
         buffer = number_bytes n v;
         negative = number < 0
     in if n = 0 then buffer
        else if last buffer AND 128 \<noteq> 0
          then butlast buffer @ [if negative then 128 else 0]
        else if negative then butlast buffer @ [last buffer OR 128]
        else buffer)"

definition OP_IF :: nat where "OP_IF = 99"
definition OP_ELSE :: nat where "OP_ELSE = 103"
definition OP_ENDIF :: nat where "OP_ENDIF = 104"
definition OP_DROP :: nat where "OP_DROP = 117"
definition OP_EQUALVERIFY :: nat where "OP_EQUALVERIFY = 136"
definition OP_SHA256 :: nat where "OP_SHA256 = 168"
definition OP_CHECKSIG :: nat where "OP_CHECKSIG = 172"
definition OP_CHECKLOCKTIMEVERIFY :: nat where "OP_CHECKLOCKTIMEVERIFY = 177"

text \<open>
  \<^verbatim>\<open>createHTLCScript\<close>. The branch a claim takes checks the hash of the secret and
  then a signature of the recipient's key.
\<close>

definition createHTLCScript :: "bytes \<Rightarrow> bytes \<Rightarrow> bytes \<Rightarrow> int \<Rightarrow> js_error + bytes" where
  "createHTLCScript hash recipientPubKey refundPubKey lockTime' =
    compile [
      Opcode OP_IF,
        Opcode OP_SHA256,
        Data hash,
        Opcode OP_EQUALVERIFY,
        Data recipientPubKey,
        Opcode OP_CHECKSIG,
      Opcode OP_ELSE,
        Data (script_number_encode lockTime'),
        Opcode OP_CHECKLOCKTIMEVERIFY,
        Opcode OP_DROP,
        Data refundPubKey,
        Opcode OP_CHECKSIG,
      Opcode OP_ENDIF]"

section \<open>The state store: coordinator/StateManager\<close>

text \<open>
  The persisted swap state is the object \<^verbatim>\<open>initiateBTCToETHSwap\<close> builds, with the
  fields later steps add (absent until then). The store keeps a \<^verbatim>\<open>Map\<close> in memory
  and one JSON file per swap. The \<^verbatim>\<open>Map\<close> is an association list in insertion order
  with distinct keys (\<^verbatim>\<open>set\<close> replaces in place or appends, \<^verbatim>\<open>delete\<close> removes); the
  data directory is an association list from file names to contents, and a file's
  content is the state it serialises (\<^verbatim>\<open>JSON.stringify\<close> and \<^verbatim>\<open>JSON.parse\<close> are
  inverse on these objects). The store is taken after \<^verbatim>\<open>initialize\<close> has run, the
  state every operation first waits for. Backup copies are written beside the files
  and never read by the operations below; they are left out. Failures of the file
  system itself are not modelled.
\<close>

record btcSide =
  bs_amount :: int
  bs_userAddress :: string
  bs_htlcAddress :: string
  bs_htlcScript :: string
  bs_secret :: string
  bs_secretHash :: string
  bs_lockTime :: int

record ethSide =
  es_tokenAddress :: string
  es_amount :: int
  es_userAddress :: string
  es_quote :: string

record swapState =
  ss_swapId :: string
  ss_status :: string
  ss_btcSide :: btcSide
  ss_ethSide :: ethSide
  ss_createdAt :: int
  ss_expiresAt :: int
  ss_btcTxId :: "string option"
  ss_ethTxHash :: "string option"
  ss_completedAt :: "int option"
  ss_refundedAt :: "int option"
  ss_ethRefundTxHash :: "string option"
  ss_lastUpdated :: "int option"

record stateManager =
  swapStates :: "(string \<times> swapState) list"
  files :: "(string \<times> swapState) list"

definition swap_file :: "string \<Rightarrow> string" where
  "swap_file swapId = ''swap_'' @ swapId @ ''.json''"

text \<open>\<open>now\<close> is the value of \<^verbatim>\<open>Date.now()\<close> at the call.\<close>

definition saveSwapState :: "int \<Rightarrow> stateManager \<Rightarrow> string \<Rightarrow> swapState \<Rightarrow> stateManager" where
  "saveSwapState now sm swapId swapState =
    sm\<lparr>swapStates := AList.update swapId (swapState\<lparr>ss_lastUpdated := Some now\<rparr>) (swapStates sm),
       files := AList.update (swap_file swapId) swapState (files sm)\<rparr>"

definition getSwapState :: "stateManager \<Rightarrow> string \<Rightarrow> stateManager \<times> swapState option" where
  "getSwapState sm swapId =
    (case map_of (swapStates sm) swapId of
       Some swapState \<Rightarrow> (sm, Some swapState)
     | None \<Rightarrow>
         (case map_of (files sm) (swap_file swapId) of
            Some swapState \<Rightarrow>
              (sm\<lparr>swapStates := AList.update swapId swapState (swapStates sm)\<rparr>, Some swapState)
          | None \<Rightarrow> (sm, None)))"

definition getActiveSwaps :: "stateManager \<Rightarrow> swapState list" where
  "getActiveSwaps sm =
    map snd (filter (\<lambda>(swapId, swapState).
      ss_status swapState = ''initiated'' \<or> ss_status swapState = ''pending'') (swapStates sm))"

definition deleteSwapState :: "stateManager \<Rightarrow> string \<Rightarrow> stateManager" where
  "deleteSwapState sm swapId =
    sm\<lparr>swapStates := AList.delete swapId (swapStates sm),
       files := AList.delete (swap_file swapId) (files sm)\<rparr>"

text \<open>
  \<^verbatim>\<open>cleanupExpiredSwaps(maxAge)\<close>: \<open>None\<close> stands for a call without the argument,
  which takes the default of 30 days. The result is the store and the number of swaps
  deleted.
\<close>

definition cleanupExpiredSwaps :: "int \<Rightarrow> int option \<Rightarrow> stateManager \<Rightarrow> stateManager \<times> nat" where
  "cleanupExpiredSwaps now maxAge sm =
    (let cutoffTime = now - (case maxAge of None \<Rightarrow> 30 * 24 * 60 * 60 * 1000 | Some age \<Rightarrow> age);
         swapsToDelete = map fst (filter (\<lambda>(swapId, swapState).
           ss_createdAt swapState < cutoffTime \<and>
           (ss_status swapState = ''completed'' \<or> ss_status swapState = ''refunded''))
           (swapStates sm))
     in (foldl deleteSwapState sm swapsToDelete, length swapsToDelete))"

section \<open>The coordinator: coordinator/SwapCoordinator\<close>

text \<open>
  \<^verbatim>\<open>initiateBTCToETHSwap\<close> talks to the outside: it draws a swap id and the secret's
  random bytes, has the library compile the HTLC script and derive its address, asks
  the 1inch API for a quote, reads the clock and sends a transaction to the registry.
  The model takes what the outside returns, and the configured service address, as a
  record; a request that fails is \<open>None\<close>. Each error is logged and thrown on, so the
  call ends with it.
\<close>

record swapParams =
  p_btcAmount :: int
  p_ethTokenAddress :: string
  p_ethAmount :: int
  p_userBtcAddress :: string
  p_userEthAddress :: string
  p_lockTime :: int

record outside =
  o_swapId :: string
  o_randomBytes :: bytes
  o_createHTLCScript :: "bytes \<Rightarrow> bytes \<Rightarrow> bytes \<Rightarrow> int \<Rightarrow> bytes"
  o_createP2SHAddress :: "bytes \<Rightarrow> string"
  o_serviceBtcAddress :: string
  o_quote :: "string option"
  o_now :: int
  o_initiateEthereumSwap :: "string option"

datatype coordinator_error = QuoteError | EthereumError

record initiated =
  r_swapId :: string
  r_btcHtlcAddress :: string
  r_secretHash :: string
  r_lockTime :: int
  r_ethQuote :: string

definition initiateBTCToETHSwap ::
  "outside \<Rightarrow> stateManager \<Rightarrow> swapParams \<Rightarrow> stateManager \<times> (coordinator_error + initiated)" where
  "initiateBTCToETHSwap out sm swapParams =
    (let swapId = o_swapId out;
         (secret, hash) = generateSecret (o_randomBytes out);
         htlc = createHTLCOutput (o_createHTLCScript out) (o_createP2SHAddress out) hash
           (p_userBtcAddress swapParams) (o_serviceBtcAddress out)
           (p_lockTime swapParams) (p_btcAmount swapParams)
     in case o_quote out of
          None \<Rightarrow> (sm, Inl QuoteError)
        | Some ethQuote \<Rightarrow>
            let swapState = \<lparr>
                  ss_swapId = swapId,
                  ss_status = ''initiated'',
                  ss_btcSide = \<lparr>
                    bs_amount = p_btcAmount swapParams,
                    bs_userAddress = p_userBtcAddress swapParams,
                    bs_htlcAddress = htlc_address htlc,
                    bs_htlcScript = toHex (htlc_script htlc),
                    bs_secret = toHex secret,
                    bs_secretHash = toHex hash,
                    bs_lockTime = p_lockTime swapParams\<rparr>,
                  ss_ethSide = \<lparr>
                    es_tokenAddress = p_ethTokenAddress swapParams,
                    es_amount = p_ethAmount swapParams,
                    es_userAddress = p_userEthAddress swapParams,
                    es_quote = ethQuote\<rparr>,
                  ss_createdAt = o_now out,
                  ss_expiresAt = o_now out + 24 * 60 * 60 * 1000,
                  ss_btcTxId = None, ss_ethTxHash = None, ss_completedAt = None,
                  ss_refundedAt = None, ss_ethRefundTxHash = None, ss_lastUpdated = None\<rparr>;
                sm' = saveSwapState (o_now out) sm swapId swapState
            in case o_initiateEthereumSwap out of
                 None \<Rightarrow> (sm', Inl EthereumError)
               | Some txHash \<Rightarrow>
                   (sm', Inr \<lparr>r_swapId = swapId, r_btcHtlcAddress = htlc_address htlc,
                              r_secretHash = toHex hash, r_lockTime = p_lockTime swapParams,
                              r_ethQuote = ethQuote\<rparr>))"

section \<open>Properties of the hash functions\<close>

text \<open>
  The digests of 32 zero bytes and of two further inputs, computed by rewriting with the
  definitions: SHA-256 gives \<^verbatim>\<open>66687aad...2925\<close> and, on \<^verbatim>\<open>abc\<close>, \<^verbatim>\<open>ba7816bf...15ad\<close>;
  Keccak-256 gives \<^verbatim>\<open>290decd9...e563\<close> and, on the empty input, \<^verbatim>\<open>c5d24601...a470\<close>.
\<close>

lemma sha256_ints_zero:
  "sha256_ints (replicate 32 0) =
    [102, 104, 122, 173, 248, 98, 189, 119, 108, 143, 193, 139, 142, 159, 142, 32,
     8, 151, 20, 133, 110, 226, 51, 179, 144, 42, 89, 29, 13, 95, 41, 37]"
  by code_simp

lemma sha256_ints_abc:
  "sha256_ints [97, 98, 99] =
    [186, 120, 22, 191, 143, 1, 207, 234, 65, 65, 64, 222, 93, 174, 34, 35,
     176, 3, 97, 163, 150, 23, 122, 156, 180, 16, 255, 97, 242, 0, 21, 173]"
  by code_simp

lemma keccak256_ints_zero:
  "keccak256_ints (replicate 32 0) =
    [41, 13, 236, 217, 84, 139, 98, 168, 214, 3, 69, 169, 136, 56, 111, 200,
     75, 166, 188, 149, 72, 64, 8, 246, 54, 47, 147, 22, 14, 243, 229, 99]"
  by code_simp

lemma keccak256_ints_empty:
  "keccak256_ints [] =
    [197, 210, 70, 1, 134, 247, 35, 60, 146, 126, 125, 178, 220, 199, 3, 192,
     229, 0, 182, 83, 202, 130, 39, 59, 123, 250, 216, 4, 93, 133, 164, 112]"
  by code_simp

lemma abi_encodePacked_zero: "abi_encodePacked 0 = replicate 32 0"
  by (simp add: abi_encodePacked_def numeral_eq_Suc)

lemma sha256_zero:
  "sha256 (replicate 32 0) =
    [0x66, 0x68, 0x7a, 0xad, 0xf8, 0x62, 0xbd, 0x77, 0x6c, 0x8f, 0xc1, 0x8b, 0x8e, 0x9f, 0x8e, 0x20,
     0x08, 0x97, 0x14, 0x85, 0x6e, 0xe2, 0x33, 0xb3, 0x90, 0x2a, 0x59, 0x1d, 0x0d, 0x5f, 0x29, 0x25]"
  by (simp add: sha256_def sha256_ints_zero)

lemma keccak256_zero:
  "keccak256 (replicate 32 0) =
    0x290decd9548b62a8d60345a988386fc84ba6bc95484008f6362f93160ef3e563"
  by (simp add: keccak256_def keccak256_ints_zero)

lemma to_bytes32_sha256_zero:
  "to_bytes32 (sha256 (replicate 32 0)) =
    0x66687aadf862bd776c8fc18b8e9f8e20089714856ee233b3902a591d0d5f2925"
  by (simp add: to_bytes32_def sha256_zero)

section \<open>Properties of the registry\<close>

lemmas registry_defs = initiateSwap_def completeSwap_def refundSwap_def submitBitcoinProof_def
  addAuthorizedOracle_def removeAuthorizedOracle_def pause_def recoverTokens_def
  transferOwnership_def renounceOwnership_def onlyOwner_def executeFusionSwap_def
  registered_def terminal_def

text \<open>What one call can do to one order, to the set of used secrets and to the invariant.\<close>

lemma dispatch_terminal_order:
  assumes "registered st i" and "terminal (status (swapOrders st i))"
    and "dispatch e st c = Inr st'"
  shows "swapOrders st' i = swapOrders st i"
  using assms by (cases c) (auto simp: registry_defs Let_def split: if_splits sum.splits)

lemma dispatch_unregistered:
  assumes "swapOrders st i = zero_order" and "\<not> initiates i c"
    and "dispatch e st c = Inr st'"
  shows "swapOrders st' i = zero_order"
  using assms
  by (cases c) (auto simp: registry_defs zero_order_def Let_def split: if_splits sum.splits)

lemma dispatch_usedSecrets:
  assumes "usedSecrets st s" and "dispatch e st c = Inr st'"
  shows "usedSecrets st' s"
  using assms by (cases c) (auto simp: registry_defs Let_def split: if_splits sum.splits)

lemma dispatch_registered_if_not_pending:
  assumes "\<forall>i. status (swapOrders st i) \<noteq> Pending \<longrightarrow> registered st i"
    and "dispatch e st c = Inr st'"
  shows "\<forall>i. status (swapOrders st' i) \<noteq> Pending \<longrightarrow> registered st' i"
  using assms by (cases c) (auto simp: registry_defs Let_def split: if_splits sum.splits)

lemma transact_cases:
  "transact st tx = st \<or> dispatch (fst tx) st (snd tx) = Inr (transact st tx)"
  by (simp add: transact_def split: sum.splits)

lemma run_terminal_order:
  "registered st i \<Longrightarrow> terminal (status (swapOrders st i)) \<Longrightarrow>
    swapOrders (run st txs) i = swapOrders st i"
proof (induction txs arbitrary: st)
  case Nil
  then show ?case by (simp add: run_def)
next
  case (Cons tx txs)
  have same: "swapOrders (transact st tx) i = swapOrders st i"
    using transact_cases [of st tx] dispatch_terminal_order [OF Cons.prems] by auto
  then have "registered (transact st tx) i" "terminal (status (swapOrders (transact st tx) i))"
    using Cons.prems by (simp_all add: registered_def)
  then have "swapOrders (run (transact st tx) txs) i = swapOrders (transact st tx) i"
    by (rule Cons.IH)
  then show ?case using same by (simp add: run_def)
qed

lemma run_unregistered:
  "swapOrders st i = zero_order \<Longrightarrow> \<forall>tx \<in> set txs. \<not> initiates i (snd tx) \<Longrightarrow>
    swapOrders (run st txs) i = zero_order"
proof (induction txs arbitrary: st)
  case Nil
  then show ?case by (simp add: run_def)
next
  case (Cons tx txs)
  have "swapOrders (transact st tx) i = zero_order"
    using transact_cases [of st tx] dispatch_unregistered [of st i "snd tx"] Cons.prems by auto
  then have "swapOrders (run (transact st tx) txs) i = zero_order"
    using Cons.prems by (intro Cons.IH) auto
  then show ?case by (simp add: run_def)
qed

lemma run_usedSecrets: "usedSecrets st s \<Longrightarrow> usedSecrets (run st txs) s"
proof (induction txs arbitrary: st)
  case Nil
  then show ?case by (simp add: run_def)
next
  case (Cons tx txs)
  have "usedSecrets (transact st tx) s"
    using transact_cases [of st tx] dispatch_usedSecrets [OF Cons.prems] Cons.prems by auto
  then have "usedSecrets (run (transact st tx) txs) s" by (rule Cons.IH)
  then show ?case by (simp add: run_def)
qed

lemma run_registered_if_not_pending:
  "\<forall>i. status (swapOrders st i) \<noteq> Pending \<longrightarrow> registered st i \<Longrightarrow>
    \<forall>i. status (swapOrders (run st txs) i) \<noteq> Pending \<longrightarrow> registered (run st txs) i"
proof (induction txs arbitrary: st)
  case Nil
  then show ?case by (simp add: run_def)
next
  case (Cons tx txs)
  have "\<forall>i. status (swapOrders (transact st tx) i) \<noteq> Pending \<longrightarrow> registered (transact st tx) i"
    using transact_cases [of st tx] dispatch_registered_if_not_pending [OF Cons.prems] Cons.prems
    by auto
  then have "\<forall>i. status (swapOrders (run (transact st tx) txs) i) \<noteq> Pending
      \<longrightarrow> registered (run (transact st tx) txs) i"
    by (rule Cons.IH)
  then show ?case by (simp add: run_def)
qed

lemma reachable_registered_if_terminal:
  "terminal (status (swapOrders (run (deploy deployer) txs) i)) \<Longrightarrow>
    registered (run (deploy deployer) txs) i"
proof -
  have "\<forall>i. status (swapOrders (deploy deployer) i) \<noteq> Pending \<longrightarrow> registered (deploy deployer) i"
    by (simp add: deploy_def zero_order_def)
  from run_registered_if_not_pending [OF this, of txs]
  show "terminal (status (swapOrders (run (deploy deployer) txs) i)) \<Longrightarrow>
    registered (run (deploy deployer) txs) i"
    by (auto simp: terminal_def)
qed

lemma not_pending_fails:
  assumes "registered st i" and "terminal (status (swapOrders st i))"
  shows "completeSwap e st i secret txProof merkleProof = Inl (Revert ''Swap not pending'')"
    and "refundSwap e st i reason = Inl (Revert ''Swap not pending'')"
  using assms by (auto simp: registry_defs Let_def)

lemma unat_SWAP_TIMEOUT: "unat SWAP_TIMEOUT = 86400"
  by (simp add: SWAP_TIMEOUT_def)

lemma checked_add_timeout:
  "checked_add c SWAP_TIMEOUT =
    (if unat c + 86400 < 2 ^ 256 then Inr (c + SWAP_TIMEOUT) else Inl (Panic 17))"
  by (simp add: checked_add_def unat_SWAP_TIMEOUT)

lemma unat_add_timeout:
  "unat c + 86400 < 2 ^ 256 \<Longrightarrow> unat (c + SWAP_TIMEOUT) = unat c + 86400"
  by (simp add: unat_word_ariths unat_SWAP_TIMEOUT)

text \<open>
  C6. A second \<^verbatim>\<open>initiateSwap\<close> under a swap id that is already registered reverts with
  \<^verbatim>\<open>Swap already exists\<close> whatever its other arguments are, and the transaction leaves
  the storage, and with it the first order, as it was. (The \<^verbatim>\<open>user\<close> of an order is the
  sender of the transaction that registered it, which is never the zero address.)
\<close>

theorem duplicate_register_fails:
  assumes "registered st swapId"
  shows "initiateSwap e st swapId t a b h l = Inl (Revert ''Swap already exists'')
    \<and> transact st (e, InitiateSwap swapId t a b h l) = st"
  using assms by (simp add: initiateSwap_def registered_def transact_def)

theorem duplicate_register_fails_witness:
  "registered
     (transact (deploy 1) (\<lparr>msg_sender = 2, block_timestamp = 100\<rparr>, InitiateSwap 7 5 1000 9 11 200)) 7
   \<and> initiateSwap \<lparr>msg_sender = 3, block_timestamp = 150\<rparr>
       (transact (deploy 1) (\<lparr>msg_sender = 2, block_timestamp = 100\<rparr>, InitiateSwap 7 5 1000 9 11 200))
       7 6 2000 10 12 300 = Inl (Revert ''Swap already exists'')
   \<and> getSwapOrder
       (transact
         (transact (deploy 1) (\<lparr>msg_sender = 2, block_timestamp = 100\<rparr>, InitiateSwap 7 5 1000 9 11 200))
         (\<lparr>msg_sender = 3, block_timestamp = 150\<rparr>, InitiateSwap 7 6 2000 10 12 300)) 7
     = \<lparr>user = 2, tokenOut = 5, amountOut = 1000, bitcoinTxHash = 9, secretHash = 11,
        lockTime = 200, createdAt = 100, status = Pending\<rparr>"
proof -
  have r: "registered
     (transact (deploy 1) (\<lparr>msg_sender = 2, block_timestamp = 100\<rparr>, InitiateSwap 7 5 1000 9 11 200)) 7"
    by (simp add: transact_def initiateSwap_def deploy_def zero_order_def registered_def)
  show ?thesis
    using r duplicate_register_fails [OF r, of "\<lparr>msg_sender = 3, block_timestamp = 150\<rparr>" 6 2000 10 12 300]
    by (simp add: getSwapOrder_def)
      (simp add: transact_def initiateSwap_def deploy_def zero_order_def)
qed

text \<open>
  C4. Terminal statuses are absorbing. In every storage the contract can reach from its
  deployment, an order whose status is Completed, Refunded or Expired makes
  \<^verbatim>\<open>completeSwap\<close> and \<^verbatim>\<open>refundSwap\<close> revert with \<^verbatim>\<open>Swap not pending\<close>, and no
  sequence of further transactions changes the order.
\<close>

theorem terminal_status_absorbing:
  assumes "st = run (deploy deployer) txs"
    and "terminal (status (swapOrders st swapId))"
  shows "completeSwap e st swapId secret txProof merkleProof = Inl (Revert ''Swap not pending'')
    \<and> refundSwap e' st swapId reason = Inl (Revert ''Swap not pending'')
    \<and> transact st (e, CompleteSwap swapId secret txProof merkleProof) = st
    \<and> transact st (e', RefundSwap swapId reason) = st
    \<and> swapOrders (run st txs') swapId = swapOrders st swapId"
proof -
  have r: "registered st swapId"
    using assms reachable_registered_if_terminal by simp
  show ?thesis
    using not_pending_fails [OF r assms(2)] run_terminal_order [OF r assms(2)]
    by (simp add: transact_def)
qed

theorem terminal_status_absorbing_witness:
  "terminal (status (swapOrders (run (deploy 1)
      [(\<lparr>msg_sender = 2, block_timestamp = 100\<rparr>,
          InitiateSwap 7 5 1000 9 (keccak256 (abi_encodePacked 0)) 200),
       (\<lparr>msg_sender = 3, block_timestamp = 150\<rparr>, CompleteSwap 7 0 [1] [1])]) 7))
   \<and> completeSwap \<lparr>msg_sender = 3, block_timestamp = 160\<rparr> (run (deploy 1)
      [(\<lparr>msg_sender = 2, block_timestamp = 100\<rparr>,
          InitiateSwap 7 5 1000 9 (keccak256 (abi_encodePacked 0)) 200),
       (\<lparr>msg_sender = 3, block_timestamp = 150\<rparr>, CompleteSwap 7 0 [1] [1])]) 7 0 [1] [1]
     = Inl (Revert ''Swap not pending'')
   \<and> refundSwap \<lparr>msg_sender = 2, block_timestamp = 300\<rparr> (run (deploy 1)
      [(\<lparr>msg_sender = 2, block_timestamp = 100\<rparr>,
          InitiateSwap 7 5 1000 9 (keccak256 (abi_encodePacked 0)) 200),
       (\<lparr>msg_sender = 3, block_timestamp = 150\<rparr>, CompleteSwap 7 0 [1] [1])]) 7 ''Swap timeout''
     = Inl (Revert ''Swap not pending'')
   \<and> status (swapOrders (run (run (deploy 1)
      [(\<lparr>msg_sender = 2, block_timestamp = 100\<rparr>,
          InitiateSwap 7 5 1000 9 (keccak256 (abi_encodePacked 0)) 200),
       (\<lparr>msg_sender = 3, block_timestamp = 150\<rparr>, CompleteSwap 7 0 [1] [1])])
      [(\<lparr>msg_sender = 2, block_timestamp = 300\<rparr>, RefundSwap 7 ''Swap timeout''),
       (\<lparr>msg_sender = 2, block_timestamp = 310\<rparr>, InitiateSwap 7 5 1000 9 0 400)]) 7) = Completed"
proof -
  have s: "status (swapOrders (run (deploy 1)
      [(\<lparr>msg_sender = 2, block_timestamp = 100\<rparr>,
          InitiateSwap 7 5 1000 9 (keccak256 (abi_encodePacked 0)) 200),
       (\<lparr>msg_sender = 3, block_timestamp = 150\<rparr>, CompleteSwap 7 0 [1] [1])]) 7) = Completed"
    by (simp add: run_def transact_def initiateSwap_def completeSwap_def deploy_def
        zero_order_def verifyBitcoinTransaction_def executeFusionSwap_def)
  then have t: "terminal (status (swapOrders (run (deploy 1)
      [(\<lparr>msg_sender = 2, block_timestamp = 100\<rparr>,
          InitiateSwap 7 5 1000 9 (keccak256 (abi_encodePacked 0)) 200),
       (\<lparr>msg_sender = 3, block_timestamp = 150\<rparr>, CompleteSwap 7 0 [1] [1])]) 7))"
    by (simp add: terminal_def)
  show ?thesis
    using s t terminal_status_absorbing [OF refl t,
        of "\<lparr>msg_sender = 3, block_timestamp = 160\<rparr>" 0 "[1]" "[1]"
           "\<lparr>msg_sender = 2, block_timestamp = 300\<rparr>" "''Swap timeout''"
           "[(\<lparr>msg_sender = 2, block_timestamp = 300\<rparr>, RefundSwap 7 ''Swap timeout''),
             (\<lparr>msg_sender = 2, block_timestamp = 310\<rparr>, InitiateSwap 7 5 1000 9 0 400)]"]
    by simp
qed

text \<open>
  C5. For a registered, pending order \<^verbatim>\<open>refundSwap\<close> fails as long as the time is
  neither past the order's lock time nor past its creation time plus 24 hours (with
  \<^verbatim>\<open>Swap not expired\<close>, or with the overflow panic when that sum does not fit 256
  bits). Once the time is past one of the two, the call succeeds and changes nothing but
  the order's status, which becomes Refunded; after that every \<^verbatim>\<open>refundSwap\<close> on the
  order reverts with \<^verbatim>\<open>Swap not pending\<close>, whatever transactions came in between.
\<close>

theorem refund_only_after_expiry:
  assumes "registered st swapId"
    and "status (swapOrders st swapId) = Pending"
  shows "if unat (block_timestamp e) > unat (lockTime (swapOrders st swapId))
          \<or> unat (block_timestamp e) > unat (createdAt (swapOrders st swapId)) + 86400
     then refundSwap e st swapId reason =
           Inr (st\<lparr>swapOrders := (swapOrders st)(swapId := (swapOrders st swapId)\<lparr>status := Refunded\<rparr>)\<rparr>)
         \<and> (\<forall>txs e' reason'.
             refundSwap e'
               (run (st\<lparr>swapOrders := (swapOrders st)(swapId := (swapOrders st swapId)\<lparr>status := Refunded\<rparr>)\<rparr>) txs)
               swapId reason' = Inl (Revert ''Swap not pending''))
     else refundSwap e st swapId reason =
           Inl (if unat (createdAt (swapOrders st swapId)) + 86400 < 2 ^ 256
                then Revert ''Swap not expired'' else Panic 17)"
proof -
  let ?o = "swapOrders st swapId"
  let ?st' = "st\<lparr>swapOrders := (swapOrders st)(swapId := ?o\<lparr>status := Refunded\<rparr>)\<rparr>"
  have bound: "unat (block_timestamp e) < 2 ^ 256"
    using unsigned_less [of "block_timestamp e"] by simp
  have r': "registered ?st' swapId" and t': "terminal (status (swapOrders ?st' swapId))"
    using assms by (simp_all add: registered_def terminal_def)
  have later: "refundSwap e' (run ?st' txs) swapId reason' = Inl (Revert ''Swap not pending'')"
    for txs e' reason'
  proof -
    have same: "swapOrders (run ?st' txs) swapId = swapOrders ?st' swapId"
      by (rule run_terminal_order [OF r' t'])
    have "registered (run ?st' txs) swapId"
      and "terminal (status (swapOrders (run ?st' txs) swapId))"
      using r' t' same by (simp_all add: registered_def)
    then show ?thesis by (rule not_pending_fails(2))
  qed
  show ?thesis
  proof (cases "unat (block_timestamp e) > unat (lockTime ?o)")
    case True
    then have "block_timestamp e > lockTime ?o"
      by (simp add: word_less_nat_alt)
    then have "refundSwap e st swapId reason = Inr ?st'"
      using assms by (simp add: refundSwap_def registered_def Let_def)
    then show ?thesis using True later by simp
  next
    case False
    then have nl: "\<not> block_timestamp e > lockTime ?o"
      by (simp add: word_less_nat_alt)
    show ?thesis
    proof (cases "unat (createdAt ?o) + 86400 < 2 ^ 256")
      case fits: True
      have cmp: "(block_timestamp e > createdAt ?o + SWAP_TIMEOUT)
          = (unat (block_timestamp e) > unat (createdAt ?o) + 86400)"
        using unat_add_timeout [OF fits] by (simp add: word_less_nat_alt)
      have "refundSwap e st swapId reason =
          (if unat (block_timestamp e) > unat (createdAt ?o) + 86400 then Inr ?st'
           else Inl (Revert ''Swap not expired''))"
        using assms nl fits cmp
        by (simp add: refundSwap_def registered_def Let_def checked_add_timeout)
      then show ?thesis using False fits later by simp
    next
      case over: False
      have "refundSwap e st swapId reason = Inl (Panic 17)"
        using assms nl over
        by (simp add: refundSwap_def registered_def Let_def checked_add_timeout)
      moreover have "\<not> unat (block_timestamp e) > unat (createdAt ?o) + 86400"
        using over bound by simp
      ultimately show ?thesis using False over by simp
    qed
  qed
qed

theorem refund_only_after_expiry_witness:
  "registered
     (transact (deploy 1) (\<lparr>msg_sender = 2, block_timestamp = 100\<rparr>, InitiateSwap 7 5 1000 9 11 200)) 7
   \<and> refundSwap \<lparr>msg_sender = 2, block_timestamp = 200\<rparr>
       (transact (deploy 1) (\<lparr>msg_sender = 2, block_timestamp = 100\<rparr>, InitiateSwap 7 5 1000 9 11 200))
       7 ''Swap timeout'' = Inl (Revert ''Swap not expired'')
   \<and> status (swapOrders (transact
       (transact (deploy 1) (\<lparr>msg_sender = 2, block_timestamp = 100\<rparr>, InitiateSwap 7 5 1000 9 11 200))
       (\<lparr>msg_sender = 2, block_timestamp = 201\<rparr>, RefundSwap 7 ''Swap timeout'')) 7) = Refunded
   \<and> refundSwap \<lparr>msg_sender = 2, block_timestamp = 202\<rparr>
       (transact
         (transact (deploy 1) (\<lparr>msg_sender = 2, block_timestamp = 100\<rparr>, InitiateSwap 7 5 1000 9 11 200))
         (\<lparr>msg_sender = 2, block_timestamp = 201\<rparr>, RefundSwap 7 ''Swap timeout''))
       7 ''Swap timeout'' = Inl (Revert ''Swap not pending'')"
proof -
  let ?st = "transact (deploy 1)
    (\<lparr>msg_sender = 2, block_timestamp = 100\<rparr>, InitiateSwap 7 5 1000 9 11 200)"
  have o: "swapOrders ?st 7 = \<lparr>user = 2, tokenOut = 5, amountOut = 1000, bitcoinTxHash = 9,
      secretHash = 11, lockTime = 200, createdAt = 100, status = Pending\<rparr>"
    by (simp add: transact_def initiateSwap_def deploy_def zero_order_def)
  have r: "registered ?st 7" and p: "status (swapOrders ?st 7) = Pending"
    by (simp_all add: o registered_def)
  have early: "refundSwap \<lparr>msg_sender = 2, block_timestamp = 200\<rparr> ?st 7 ''Swap timeout''
      = Inl (Revert ''Swap not expired'')"
    using refund_only_after_expiry [OF r p, of "\<lparr>msg_sender = 2, block_timestamp = 200\<rparr>" "''Swap timeout''"]
    by (simp add: o)
  have due: "refundSwap \<lparr>msg_sender = 2, block_timestamp = 201\<rparr> ?st 7 ''Swap timeout''
      = Inr (?st\<lparr>swapOrders := (swapOrders ?st)(7 := (swapOrders ?st 7)\<lparr>status := Refunded\<rparr>)\<rparr>)
    \<and> (\<forall>txs e' reason'. refundSwap e'
          (run (?st\<lparr>swapOrders := (swapOrders ?st)(7 := (swapOrders ?st 7)\<lparr>status := Refunded\<rparr>)\<rparr>) txs)
          7 reason' = Inl (Revert ''Swap not pending''))"
    using refund_only_after_expiry [OF r p, of "\<lparr>msg_sender = 2, block_timestamp = 201\<rparr>" "''Swap timeout''"]
    by (simp add: o)
  then have t: "transact ?st (\<lparr>msg_sender = 2, block_timestamp = 201\<rparr>, RefundSwap 7 ''Swap timeout'')
      = ?st\<lparr>swapOrders := (swapOrders ?st)(7 := (swapOrders ?st 7)\<lparr>status := Refunded\<rparr>)\<rparr>"
    by (simp add: transact_def)
  have again: "refundSwap \<lparr>msg_sender = 2, block_timestamp = 202\<rparr>
      (?st\<lparr>swapOrders := (swapOrders ?st)(7 := (swapOrders ?st 7)\<lparr>status := Refunded\<rparr>)\<rparr>)
      7 ''Swap timeout'' = Inl (Revert ''Swap not pending'')"
    using due [THEN conjunct2, THEN spec, of "[]"] by (simp add: run_def)
  show ?thesis
    using r early again by (simp add: t)
qed

text \<open>
  C10. For a swap id under which no order was ever registered, in any storage reachable
  from deployment, \<^verbatim>\<open>isSwapExpired\<close> returns true at every positive block time: the
  order is the zero value, and the time is past its lock time 0.
\<close>

theorem unregistered_swap_is_expired:
  assumes "st = run (deploy deployer) txs"
    and "list_all (\<lambda>tx. \<not> initiates swapId (snd tx)) txs"
    and "block_timestamp e > 0"
  shows "isSwapExpired e st swapId = Inr True"
proof -
  have "swapOrders (deploy deployer) swapId = zero_order"
    by (simp add: deploy_def)
  then have "swapOrders st swapId = zero_order"
    using run_unregistered assms(1,2) by (simp add: list_all_iff)
  then show ?thesis
    using assms(3) by (simp add: isSwapExpired_def zero_order_def Let_def)
qed

theorem unregistered_swap_is_expired_witness:
  "list_all (\<lambda>tx. \<not> initiates 8 (snd tx))
     [(\<lparr>msg_sender = 2, block_timestamp = 100\<rparr>, InitiateSwap 7 5 1000 9 11 200),
      (\<lparr>msg_sender = 2, block_timestamp = 110\<rparr>, RefundSwap 8 ''Swap timeout'')]
   \<and> block_timestamp \<lparr>msg_sender = 3, block_timestamp = 1\<rparr> > (0 :: uint256)
   \<and> isSwapExpired \<lparr>msg_sender = 3, block_timestamp = 1\<rparr>
       (run (deploy 1)
         [(\<lparr>msg_sender = 2, block_timestamp = 100\<rparr>, InitiateSwap 7 5 1000 9 11 200),
          (\<lparr>msg_sender = 2, block_timestamp = 110\<rparr>, RefundSwap 8 ''Swap timeout'')]) 8
     = Inr True"
proof -
  have n: "list_all (\<lambda>tx. \<not> initiates 8 (snd tx))
     [(\<lparr>msg_sender = 2, block_timestamp = 100\<rparr>, InitiateSwap 7 5 1000 9 11 200),
      (\<lparr>msg_sender = 2, block_timestamp = 110\<rparr>, RefundSwap 8 ''Swap timeout'')]"
    by simp
  have p: "block_timestamp \<lparr>msg_sender = 3, block_timestamp = 1\<rparr> > (0 :: uint256)"
    by simp
  show ?thesis
    using n p unregistered_swap_is_expired [OF refl n p, of 1] by simp
qed

text \<open>
  C3, as the code has it. Once \<^verbatim>\<open>completeSwap\<close> has succeeded with a secret, the secret
  is in \<^verbatim>\<open>usedSecrets\<close> for good: after any further transactions, \<^verbatim>\<open>completeSwap\<close>
  with the same secret on a registered, pending order with the same secret hash never
  succeeds. It reverts with \<^verbatim>\<open>Secret already used\<close> while the order's lock time has not
  passed; past the lock time the earlier check fires and it reverts with
  \<^verbatim>\<open>Swap expired\<close>.
\<close>

theorem consumed_secret_is_rejected:
  assumes "completeSwap e1 st swapId1 secret txProof1 merkleProof1 = Inr st1"
    and "st2 = run st1 txs"
    and "registered st2 swapId2"
    and "status (swapOrders st2 swapId2) = Pending"
    and "secretHash (swapOrders st2 swapId2) = secretHash (swapOrders st swapId1)"
  shows "completeSwap e2 st2 swapId2 secret txProof2 merkleProof2 =
    Inl (Revert (if block_timestamp e2 \<le> lockTime (swapOrders st2 swapId2)
                 then ''Secret already used'' else ''Swap expired''))"
proof -
  have h: "keccak256 (abi_encodePacked secret) = secretHash (swapOrders st swapId1)"
    and u: "usedSecrets st1 secret"
    using assms(1)
    by (auto simp: completeSwap_def Let_def split: if_splits sum.splits)
  have "usedSecrets st2 secret"
    using run_usedSecrets [OF u] assms(2) by simp
  then show ?thesis
    using assms(3-5) h by (simp add: completeSwap_def registered_def Let_def)
qed

theorem consumed_secret_is_rejected_witness:
  "completeSwap \<lparr>msg_sender = 3, block_timestamp = 120\<rparr>
      (run (deploy 1)
        [(\<lparr>msg_sender = 2, block_timestamp = 100\<rparr>,
            InitiateSwap 7 5 1000 9 (keccak256 (abi_encodePacked 0)) 200),
         (\<lparr>msg_sender = 4, block_timestamp = 100\<rparr>,
            InitiateSwap 8 5 3000 10 (keccak256 (abi_encodePacked 0)) 150)])
      7 0 [1] [1]
    = Inr (transact (run (deploy 1)
        [(\<lparr>msg_sender = 2, block_timestamp = 100\<rparr>,
            InitiateSwap 7 5 1000 9 (keccak256 (abi_encodePacked 0)) 200),
         (\<lparr>msg_sender = 4, block_timestamp = 100\<rparr>,
            InitiateSwap 8 5 3000 10 (keccak256 (abi_encodePacked 0)) 150)])
        (\<lparr>msg_sender = 3, block_timestamp = 120\<rparr>, CompleteSwap 7 0 [1] [1]))
   \<and> completeSwap \<lparr>msg_sender = 3, block_timestamp = 130\<rparr>
      (run (transact (run (deploy 1)
        [(\<lparr>msg_sender = 2, block_timestamp = 100\<rparr>,
            InitiateSwap 7 5 1000 9 (keccak256 (abi_encodePacked 0)) 200),
         (\<lparr>msg_sender = 4, block_timestamp = 100\<rparr>,
            InitiateSwap 8 5 3000 10 (keccak256 (abi_encodePacked 0)) 150)])
        (\<lparr>msg_sender = 3, block_timestamp = 120\<rparr>, CompleteSwap 7 0 [1] [1])) [])
      8 0 [1] [1]
    = Inl (Revert ''Secret already used'')"
proof -
  let ?st = "run (deploy 1)
        [(\<lparr>msg_sender = 2, block_timestamp = 100\<rparr>,
            InitiateSwap 7 5 1000 9 (keccak256 (abi_encodePacked 0)) 200),
         (\<lparr>msg_sender = 4, block_timestamp = 100\<rparr>,
            InitiateSwap 8 5 3000 10 (keccak256 (abi_encodePacked 0)) 150)]"
  let ?st1 = "transact ?st (\<lparr>msg_sender = 3, block_timestamp = 120\<rparr>, CompleteSwap 7 0 [1] [1])"
  have o7: "swapOrders ?st 7 = \<lparr>user = 2, tokenOut = 5, amountOut = 1000, bitcoinTxHash = 9,
      secretHash = keccak256 (abi_encodePacked 0), lockTime = 200, createdAt = 100, status = Pending\<rparr>"
    and o8: "swapOrders ?st 8 = \<lparr>user = 4, tokenOut = 5, amountOut = 3000, bitcoinTxHash = 10,
      secretHash = keccak256 (abi_encodePacked 0), lockTime = 150, createdAt = 100, status = Pending\<rparr>"
    and u: "usedSecrets ?st = (\<lambda>_. False)"
    by (simp_all add: run_def transact_def initiateSwap_def deploy_def zero_order_def)
  have c: "completeSwap \<lparr>msg_sender = 3, block_timestamp = 120\<rparr> ?st 7 0 [1] [1] = Inr ?st1"
    by (simp add: transact_def completeSwap_def o7 u verifyBitcoinTransaction_def
        executeFusionSwap_def)
  have o8': "swapOrders (run ?st1 []) 8 = swapOrders ?st 8"
    by (simp add: run_def transact_def completeSwap_def initiateSwap_def deploy_def
        zero_order_def verifyBitcoinTransaction_def executeFusionSwap_def)
  have r: "registered (run ?st1 []) 8" and p: "status (swapOrders (run ?st1 []) 8) = Pending"
    and s: "secretHash (swapOrders (run ?st1 []) 8) = secretHash (swapOrders ?st 7)"
    by (simp_all add: o8' o8 o7 registered_def)
  show ?thesis
    using c consumed_secret_is_rejected [OF c refl r p s,
        of "\<lparr>msg_sender = 3, block_timestamp = 130\<rparr>" "[1]" "[1]"]
    by (simp add: o8' o8)
qed

text \<open>
  The claim as stated fails past the second order's lock time: two pending orders share
  a secret hash, the first is completed at time 160, and at time 170, past the second
  order's lock time 150, \<^verbatim>\<open>completeSwap\<close> with the consumed secret reverts with
  \<^verbatim>\<open>Swap expired\<close>, not with \<^verbatim>\<open>Secret already used\<close>.
\<close>

theorem consumed_secret_counterexample:
  "(case completeSwap \<lparr>msg_sender = 3, block_timestamp = 120\<rparr>
      (run (deploy 1)
        [(\<lparr>msg_sender = 2, block_timestamp = 100\<rparr>,
            InitiateSwap 7 5 1000 9 (keccak256 (abi_encodePacked 0)) 200),
         (\<lparr>msg_sender = 4, block_timestamp = 100\<rparr>,
            InitiateSwap 8 5 3000 10 (keccak256 (abi_encodePacked 0)) 150)])
      7 0 [1] [1] of
     Inl f \<Rightarrow> False
   | Inr st1 \<Rightarrow>
       registered st1 8 \<and> status (swapOrders st1 8) = Pending
       \<and> secretHash (swapOrders st1 8) = secretHash (swapOrders st1 7)
       \<and> completeSwap \<lparr>msg_sender = 3, block_timestamp = 170\<rparr> st1 8 0 [1] [1]
           = Inl (Revert ''Swap expired'')
       \<and> completeSwap \<lparr>msg_sender = 3, block_timestamp = 170\<rparr> st1 8 0 [1] [1]
           \<noteq> Inl (Revert ''Secret already used''))"
  by (simp add: run_def transact_def initiateSwap_def completeSwap_def deploy_def zero_order_def
      verifyBitcoinTransaction_def executeFusionSwap_def registered_def)

text \<open>
  What \<^verbatim>\<open>completeSwap\<close> takes for the hash of the secret: for a registered, pending order
  whose lock time has not passed, it reverts with \<^verbatim>\<open>Invalid secret\<close> exactly when the
  Keccak-256 hash of the secret differs from the order's secret hash.
\<close>

lemma completeSwap_invalid_secret_iff:
  assumes "registered st swapId"
    and "status (swapOrders st swapId) = Pending"
    and "block_timestamp e \<le> lockTime (swapOrders st swapId)"
  shows "(completeSwap e st swapId secret txProof merkleProof = Inl (Revert ''Invalid secret''))
    = (keccak256 (abi_encodePacked secret) \<noteq> secretHash (swapOrders st swapId))"
  using assms
  by (auto simp: completeSwap_def registered_def executeFusionSwap_def Let_def split: if_splits)

text \<open>
  C1. \<^verbatim>\<open>completeSwap\<close> should fail with \<^verbatim>\<open>Invalid secret\<close> exactly when the SHA-256
  hash of the secret differs from the order's secret hash; SHA-256 is what the Bitcoin
  side computes and what the coordinator registers. The code does not do so. For the
  secret of 32 zero bytes \<^verbatim>\<open>generateSecret\<close> returns the SHA-256 hash
  \<^verbatim>\<open>66687aad...2925\<close>; a pending order registered with that hash, its lock time not
  passed, rejects that very secret with \<^verbatim>\<open>Invalid secret\<close>, because the Keccak-256 hash
  of the secret is \<^verbatim>\<open>290decd9...e563\<close>.
\<close>

theorem completeSwap_rejects_sha256_preimage:
  "completeSwap \<lparr>msg_sender = 3, block_timestamp = 150\<rparr>
      (transact (deploy 1)
        (\<lparr>msg_sender = 2, block_timestamp = 100\<rparr>,
           InitiateSwap 7 5 1000 9 (to_bytes32 (snd (generateSecret (replicate 32 0)))) 200))
      7 (to_bytes32 (fst (generateSecret (replicate 32 0)))) [1] [1]
    = Inl (Revert ''Invalid secret'')"
proof -
  have s: "to_bytes32 (fst (generateSecret (replicate 32 0))) = 0"
    by (simp add: generateSecret_def to_bytes32_def numeral_eq_Suc)
  have h: "to_bytes32 (snd (generateSecret (replicate 32 0)))
      = 0x66687aadf862bd776c8fc18b8e9f8e20089714856ee233b3902a591d0d5f2925"
    by (simp add: generateSecret_def to_bytes32_sha256_zero)
  show ?thesis
    by (simp add: s h transact_def initiateSwap_def completeSwap_def deploy_def zero_order_def
        abi_encodePacked_zero keccak256_zero)
qed

section \<open>Properties of the Bitcoin side\<close>

text \<open>Length prefixes are read back as they were written.\<close>

lemma readUIntLE_uintLE: "readUIntLE (uintLE n v) = v mod 256 ^ n"
proof (induction n arbitrary: v)
  case 0
  then show ?case by simp
next
  case (Suc n)
  have "unat (of_nat (v mod 256) :: 8 word) = v mod 256"
    by (simp add: unat_of_nat)
  then have "readUIntLE (uintLE (Suc n) v) = v mod 256 + 256 * ((v div 256) mod 256 ^ n)"
    using Suc.IH by simp
  also have "\<dots> = v mod 256 ^ Suc n"
    by (simp add: mod_mult2_eq)
  finally show ?case .
qed

lemma take_uintLE: "take n (uintLE n v @ rest) = uintLE n v"
proof -
  have "length (uintLE n v) = n"
    by (induction n arbitrary: v) simp_all
  then show ?thesis by simp
qed

lemma length_uintLE: "length (uintLE n v) = n"
  by (induction n arbitrary: v) simp_all

lemma pushdata_decode_encode:
  assumes "pushdata_encode number = Inr header"
  shows "pushdata_decode (header @ rest) = Some (number, length header)"
proof -
  consider "number < 76" | "76 \<le> number" "number \<le> 255" | "255 < number" "number \<le> 65535"
    | "65535 < number" "number \<le> 4294967295" | "4294967295 < number"
    by linarith
  then show ?thesis
  proof cases
    case 1
    then have "header = [of_nat number]"
      using assms by (simp add: pushdata_encode_def OP_PUSHDATA1_def)
    moreover have "unat (of_nat number :: 8 word) = number"
      using 1 by (simp add: unat_of_nat)
    ultimately show ?thesis
      using 1 by (simp add: pushdata_decode_def OP_PUSHDATA1_def)
  next
    case 2
    then have h: "header = 76 # uintLE 1 number"
      using assms by (simp add: pushdata_encode_def OP_PUSHDATA1_def)
    have "readUIntLE (uintLE 1 number) = number"
      using 2 readUIntLE_uintLE [of 1 number] by simp
    then show ?thesis
      using take_uintLE [of 1 number rest]
      by (simp add: h pushdata_decode_def OP_PUSHDATA1_def length_uintLE del: uintLE.simps)
  next
    case 3
    then have h: "header = 77 # uintLE 2 number"
      using assms by (simp add: pushdata_encode_def OP_PUSHDATA1_def OP_PUSHDATA2_def)
    have "readUIntLE (uintLE 2 number) = number"
      using 3 readUIntLE_uintLE [of 2 number] by simp
    then show ?thesis
      using take_uintLE [of 2 number rest]
      by (simp add: h pushdata_decode_def OP_PUSHDATA1_def OP_PUSHDATA2_def length_uintLE
          del: uintLE.simps)
  next
    case 4
    then have h: "header = 78 # uintLE 4 number"
      using assms
      by (simp add: pushdata_encode_def OP_PUSHDATA1_def OP_PUSHDATA2_def OP_PUSHDATA4_def)
    have "readUIntLE (uintLE 4 number) = number"
      using 4 readUIntLE_uintLE [of 4 number] by simp
    then show ?thesis
      using take_uintLE [of 4 number rest]
      by (simp add: h pushdata_decode_def OP_PUSHDATA1_def OP_PUSHDATA2_def length_uintLE
          del: uintLE.simps)
  next
    case 5
    then show ?thesis
      using assms by (simp add: pushdata_encode_def OP_PUSHDATA1_def)
  qed
qed

lemma pushdata_encode_first:
  assumes "pushdata_encode number = Inr header" and "number > 0"
  shows "\<exists>b bs. header = b # bs \<and> unat b > OP_0 \<and> unat b \<le> OP_PUSHDATA4"
proof -
  have "unat (of_nat number :: 8 word) = number" if "number < 76"
    using that by (simp add: unat_of_nat)
  then show ?thesis
    using assms
    by (auto simp: pushdata_encode_def OP_0_def OP_PUSHDATA1_def OP_PUSHDATA2_def
        OP_PUSHDATA4_def split: if_splits)
qed

text \<open>A data push at the front of a buffer decompiles to its chunk and what follows.\<close>

lemma decompile_push:
  assumes "pushdata_encode (length d) = Inr header" and "length d > 0"
  shows "decompile (header @ d @ rest) =
    (case decompile rest of
       None \<Rightarrow> None
     | Some chunks \<Rightarrow>
         Some ((case asMinimalOP d of Some opcode \<Rightarrow> Opcode opcode | None \<Rightarrow> Data d) # chunks))"
proof -
  obtain b bs where h: "header = b # bs" and b: "unat b > OP_0" "unat b \<le> OP_PUSHDATA4"
    using pushdata_encode_first [OF assms] by blast
  have dec: "pushdata_decode (b # bs @ d @ rest) = Some (length d, length (b # bs))"
    using pushdata_decode_encode [OF assms(1), of "d @ rest"] by (simp add: h)
  show ?thesis
    unfolding h
    by (subst append_Cons, subst decompile.simps)
      (simp add: b dec split: option.splits)
qed

lemma decompile_opcode:
  assumes "unat b = 0 \<or> unat b > 78"
  shows "decompile (b # rest) =
    (case decompile rest of None \<Rightarrow> None | Some chunks \<Rightarrow> Some (Opcode (unat b) # chunks))"
  using assms by (auto simp: OP_0_def OP_PUSHDATA4_def)

declare decompile.simps [simp del]

lemma asMinimalOP_range:
  assumes "asMinimalOP d = Some opcode"
  shows "opcode = 0 \<or> (78 < opcode \<and> opcode \<le> 96)"
  using assms
  by (auto simp: asMinimalOP_def OP_0_def OP_1NEGATE_def OP_RESERVED_def split: if_splits)

text \<open>What \<^verbatim>\<open>compile\<close> writes for one data chunk, \<^verbatim>\<open>decompile\<close> reads as one chunk.\<close>

lemma decompile_compile_data:
  assumes "compile [Data d] = Inr bs"
  shows "\<exists>c. decompile (bs @ rest) =
    (case decompile rest of None \<Rightarrow> None | Some chunks \<Rightarrow> Some (c # chunks))"
proof (cases "asMinimalOP d")
  case None
  then have len: "length d > 0"
    by (auto simp: asMinimalOP_def split: if_splits)
  from None assms obtain header where
    e: "pushdata_encode (length d) = Inr header" and bs: "bs = header @ d"
    by (auto split: sum.splits)
  show ?thesis
    using decompile_push [OF e len, of rest] by (auto simp: bs)
next
  case (Some opcode)
  then have bs: "bs = [of_nat opcode]"
    using assms by simp
  have r: "opcode = 0 \<or> (78 < opcode \<and> opcode \<le> 96)"
    using asMinimalOP_range [OF Some] .
  then have "unat (of_nat opcode :: 8 word) = opcode"
    by (auto simp: unat_of_nat)
  then have "unat (of_nat opcode :: 8 word) = 0 \<or> unat (of_nat opcode :: 8 word) > 78"
    using r by auto
  from decompile_opcode [OF this, of rest] show ?thesis
    by (auto simp: bs)
qed


text \<open>
  \<^verbatim>\<open>decompile\<close> reads back the chunks \<^verbatim>\<open>compile\<close> wrote, where no data chunk has a
  one-byte opcode of its own and no opcode is the length of a push.
\<close>

lemma decompile_compile:
  assumes "compile chunks = Inr bs"
    and "list_all (\<lambda>c. case c of Data d \<Rightarrow> asMinimalOP d = None | Opcode n \<Rightarrow> n = 0 \<or> 78 < n) chunks"
  shows "decompile bs = Some chunks"
  using assms
proof (induction chunks arbitrary: bs)
  case Nil
  then show ?case by (simp add: decompile.simps)
next
  case (Cons c chunks)
  show ?case
  proof (cases c)
    case (Data d)
    then have m: "asMinimalOP d = None"
      using Cons.prems(2) by simp
    then have len: "length d > 0"
      by (auto simp: asMinimalOP_def split: if_splits)
    from Cons.prems(1) Data m obtain header rest where
      e: "pushdata_encode (length d) = Inr header"
      and rest: "compile chunks = Inr rest" and bs: "bs = header @ d @ rest"
      by (auto split: sum.splits)
    have "decompile rest = Some chunks"
      using Cons.IH [OF rest] Cons.prems(2) by simp
    then show ?thesis
      using decompile_push [OF e len, of rest] by (simp add: bs m Data)
  next
    case (Opcode n)
    then have n: "n = 0 \<or> 78 < n"
      using Cons.prems(2) by simp
    from Cons.prems(1) Opcode obtain rest where
      le: "n \<le> 255" and rest: "compile chunks = Inr rest" and bs: "bs = of_nat n # rest"
      by (auto split: sum.splits if_splits)
    have u: "unat (of_nat n :: 8 word) = n"
      using le by (simp add: unat_of_nat)
    have "decompile rest = Some chunks"
      using Cons.IH [OF rest] Cons.prems(2) by simp
    then show ?thesis
      using decompile_opcode [of "of_nat n :: 8 word" rest] n by (simp add: bs u Opcode)
  qed
qed
text \<open>The script the claim puts into every input, for a secret of 32 bytes.\<close>

lemma asMinimalOP_secret: "length secret = 32 \<Longrightarrow> asMinimalOP secret = None"
  by (simp add: asMinimalOP_def)

lemma compile_witnessScript:
  "length secret = 32 \<Longrightarrow> compile [Data secret, Opcode OP_TRUE] = Inr (32 # secret @ [81])"
  by (simp add: asMinimalOP_secret pushdata_encode_def OP_PUSHDATA1_def OP_TRUE_def)

lemma decompile_Nil: "decompile [] = Some []"
  by (simp add: decompile.simps)

lemma decompile_witnessScript:
  assumes "length secret = 32"
  shows "decompile (32 # secret @ [81]) = Some [Data secret, Opcode 81]"
proof -
  have e: "pushdata_encode (length secret) = Inr [32]"
    using assms by (simp add: pushdata_encode_def OP_PUSHDATA1_def)
  have "decompile [81] = Some [Opcode 81]"
    using decompile_opcode [of 81 "[]"] by (simp add: decompile_Nil)
  then show ?thesis
    using decompile_push [OF e, of "[81]"] assms by (simp add: asMinimalOP_secret)
qed

lemma p2sh_input_claim:
  assumes "length secret = 32"
  shows "p2sh_input script (32 # secret @ [81]) =
    (case compile [Data script] of Inl err \<Rightarrow> Inl err | Inr r \<Rightarrow> Inr (32 # secret @ 81 # r))"
  using assms
  by (simp add: p2sh_input_def decompile_witnessScript asMinimalOP_secret pushdata_encode_def
      OP_PUSHDATA1_def split: sum.splits option.splits)

lemma decompile_scriptSig:
  assumes "length secret = 32" and "compile [Data script] = Inr r"
  shows "\<exists>chunks. decompile (32 # secret @ 81 # r) = Some (Data secret # chunks)"
proof -
  have e: "pushdata_encode (length secret) = Inr [32]"
    using assms(1) by (simp add: pushdata_encode_def OP_PUSHDATA1_def)
  obtain c where "decompile r = Some [c]"
    using decompile_compile_data [OF assms(2), of "[]"] by (auto simp: decompile_Nil)
  then have "decompile (81 # r) = Some [Opcode 81, c]"
    using decompile_opcode [of 81 r] by simp
  then show ?thesis
    using decompile_push [OF e, of "81 # r"] assms(1) by (simp add: asMinimalOP_secret)
qed


text \<open>What the two loops of the builders leave in the \<^verbatim>\<open>Psbt\<close>.\<close>

lemma addInputs_result:
  "addInputs lib htlc sequence utxos psbt = Inr psbt' \<Longrightarrow>
    psbt' = psbt\<lparr>psbt_inputs := psbt_inputs psbt @
      map (\<lambda>u. \<lparr>pi_hash = utxo_txid u, pi_index = utxo_vout u, pi_sequence = sequence,
                 pi_witnessUtxo_script = fromHex (utxo_scriptPubKey u),
                 pi_witnessUtxo_value = utxo_value u,
                 pi_redeemScript = htlc_script htlc, pi_finalScriptSig = None\<rparr>) utxos\<rparr>"
proof (induction utxos arbitrary: psbt)
  case Nil
  then show ?case by simp
next
  case (Cons u utxos)
  let ?i = "\<lparr>pi_hash = utxo_txid u, pi_index = utxo_vout u, pi_sequence = sequence,
      pi_witnessUtxo_script = fromHex (utxo_scriptPubKey u), pi_witnessUtxo_value = utxo_value u,
      pi_redeemScript = htlc_script htlc, pi_finalScriptSig = None\<rparr>"
  from Cons.prems have
    "addInputs lib htlc sequence utxos (psbt\<lparr>psbt_inputs := psbt_inputs psbt @ [?i]\<rparr>) = Inr psbt'"
    by (simp add: Let_def split: if_splits)
  from Cons.IH [OF this] show ?case
    by simp
qed


lemma signInputs_first:
  "signInputs lib htlc chunks keyPair (i # rest) psbt = Inr psbt' \<Longrightarrow>
    \<exists>w script. compile chunks = Inr w \<and> finalizer lib htlc w = Inr script"
  by (auto split: sum.splits if_splits)

lemma signInputs_result:
  assumes "compile chunks = Inr w" and "finalizer lib htlc w = Inr script"
  shows "signInputs lib htlc chunks keyPair idxs psbt = Inr psbt' \<Longrightarrow>
    psbt' = psbt\<lparr>psbt_inputs :=
      foldl (\<lambda>inputs i. inputs[i := (inputs ! i)\<lparr>pi_finalScriptSig := Some script\<rparr>])
        (psbt_inputs psbt) idxs\<rparr>"
proof (induction idxs arbitrary: psbt)
  case Nil
  then show ?case by simp
next
  case (Cons i idxs)
  from Cons.prems have
    "signInputs lib htlc chunks keyPair idxs
       (psbt\<lparr>psbt_inputs := (psbt_inputs psbt)
          [i := (psbt_inputs psbt ! i)\<lparr>pi_finalScriptSig := Some script\<rparr>]\<rparr>) = Inr psbt'"
    using assms by (simp del: compile.simps split: if_splits)
  from Cons.IH [OF this] show ?case
    by simp
qed


lemma foldl_update_upt:
  "n \<le> length xs \<Longrightarrow>
    foldl (\<lambda>ys i. ys[i := f (ys ! i)]) xs [0..<n] = map f (take n xs) @ drop n xs"
proof (induction n)
  case 0
  then show ?case by simp
next
  case (Suc n)
  then have n: "n < length xs" by simp
  have d: "drop n xs = xs ! n # drop (Suc n) xs"
    using n by (simp add: Cons_nth_drop_Suc)
  have "foldl (\<lambda>ys i. ys[i := f (ys ! i)]) xs [0..<Suc n]
      = (map f (take n xs) @ drop n xs)[n := f ((map f (take n xs) @ drop n xs) ! n)]"
    using Suc by simp
  also have "\<dots> = map f (take n xs) @ (f (xs ! n) # drop (Suc n) xs)"
    using n by (simp add: d list_update_append nth_append)
  also have "\<dots> = map f (take (Suc n) xs) @ drop (Suc n) xs"
    using n by (simp add: take_Suc_conv_app_nth)
  finally show ?case .
qed

lemma foldl_update_all:
  "foldl (\<lambda>ys i. ys[i := f (ys ! i)]) (map g xs) [0..<length xs] = map (\<lambda>x. f (g x)) xs"
  using foldl_update_upt [of "length xs" "map g xs" f] by simp

text \<open>
  The transaction \<^verbatim>\<open>createClaimTransaction\<close> returns, when it returns one: an input for
  every entry of \<^verbatim>\<open>utxos\<close>, each with the same script of the secret, \<^verbatim>\<open>OP_TRUE\<close> and the
  redeem script (and no signature), and the one output.
\<close>

lemma claim_transaction_result:
  assumes "createClaimTransaction lib htlc secret key dest utxos = Inr tx"
    and "length secret = 32"
  shows "\<exists>r. (utxos \<noteq> [] \<longrightarrow> compile [Data (htlc_script htlc)] = Inr r)
    \<and> tx = \<lparr>ins = map (\<lambda>u. \<lparr>in_hash = utxo_txid u, in_index = utxo_vout u,
                     in_script = 32 # secret @ 81 # r, in_sequence = 4294967295\<rparr>) utxos,
             outs = [\<lparr>out_address = dest, out_value = htlc_amount htlc - 1000\<rparr>],
             tx_locktime = 0\<rparr>"
proof -
  let ?mk = "\<lambda>u. \<lparr>pi_hash = utxo_txid u, pi_index = utxo_vout u, pi_sequence = None,
      pi_witnessUtxo_script = fromHex (utxo_scriptPubKey u), pi_witnessUtxo_value = utxo_value u,
      pi_redeemScript = htlc_script htlc, pi_finalScriptSig = None\<rparr>"
  let ?out = "\<lparr>out_address = dest, out_value = htlc_amount htlc - 1000\<rparr>"
  let ?p = "\<lparr>psbt_inputs = map ?mk utxos, psbt_outputs = [?out], psbt_locktime = 0\<rparr>"
  from assms(1) obtain keyPair psbt1 finalized where
    a: "addInputs lib htlc None utxos new_Psbt = Inr psbt1"
    and s: "signInputs lib htlc [Data secret, Opcode OP_TRUE] keyPair [0..<length utxos]
        (psbt1\<lparr>psbt_outputs := psbt_outputs psbt1 @ [?out]\<rparr>) = Inr finalized"
    and e: "extractTransaction lib finalized = Inr tx"
    by (auto simp: createClaimTransaction_def Let_def simp del: compile.simps upt.simps
        split: option.splits sum.splits if_splits)
  have p: "psbt1\<lparr>psbt_outputs := psbt_outputs psbt1 @ [?out]\<rparr> = ?p"
    using addInputs_result [OF a] by (simp add: new_Psbt_def)
  show ?thesis
  proof (cases utxos)
    case Nil
    then have "finalized = ?p"
      using s p by simp
    then show ?thesis
      using e Nil by (auto simp: extractTransaction_def split: if_splits)
  next
    case (Cons u rest)
    then have "[0..<length utxos] = 0 # [1..<length utxos]"
      by (simp add: upt_rec)
    with s obtain w script where
      w: "compile [Data secret, Opcode OP_TRUE] = Inr w"
      and f: "finalizer lib htlc w = Inr script"
      using signInputs_first by metis
    have w': "w = 32 # secret @ [81]"
      using w compile_witnessScript [OF assms(2)] by simp
    from f obtain r where r: "compile [Data (htlc_script htlc)] = Inr r"
      and script: "script = 32 # secret @ 81 # r"
      by (auto simp: finalizer_def w' p2sh_input_claim [OF assms(2)] simp del: compile.simps
          split: if_splits sum.splits)
    have "finalized = ?p\<lparr>psbt_inputs :=
        foldl (\<lambda>inputs i. inputs[i := (inputs ! i)\<lparr>pi_finalScriptSig := Some script\<rparr>])
          (psbt_inputs ?p) [0..<length utxos]\<rparr>"
      using signInputs_result [OF w f s] p by simp
    then have "finalized = ?p\<lparr>psbt_inputs :=
        map (\<lambda>u. (?mk u)\<lparr>pi_finalScriptSig := Some script\<rparr>) utxos\<rparr>"
      using foldl_update_all [of "\<lambda>i. i\<lparr>pi_finalScriptSig := Some script\<rparr>" ?mk utxos] by simp
    then have "tx = \<lparr>ins = map (\<lambda>u. \<lparr>in_hash = utxo_txid u, in_index = utxo_vout u,
                     in_script = script, in_sequence = 4294967295\<rparr>) utxos,
             outs = [?out], tx_locktime = 0\<rparr>"
      using e by (auto simp: extractTransaction_def comp_def split: if_splits)
    then show ?thesis
      using r script by auto
  qed
qed

text \<open>
  From a transaction of that layout the extractor recovers the secret: the builder and
  the extractor agree with each other on a script that begins with the secret.
\<close>

lemma claim_transaction_roundtrip:
  assumes "createClaimTransaction lib htlc secret key dest utxos = Inr tx"
    and "length secret = 32" and "utxos \<noteq> []"
  shows "extractSecretFromTransaction tx (sha256 secret) = Some secret"
proof -
  from claim_transaction_result [OF assms(1,2)] assms(3) obtain r u rest where
    r: "compile [Data (htlc_script htlc)] = Inr r"
    and u: "utxos = u # rest"
    and tx: "ins tx = map (\<lambda>u. \<lparr>in_hash = utxo_txid u, in_index = utxo_vout u,
        in_script = 32 # secret @ 81 # r, in_sequence = 4294967295\<rparr>) utxos"
    by (cases utxos) auto
  obtain chunks where "decompile (32 # secret @ 81 # r) = Some (Data secret # chunks)"
    using decompile_scriptSig [OF assms(2) r] by blast
  then show ?thesis
    using assms(2) by (simp add: extractSecretFromTransaction_def tx u)
qed

text \<open>
  Where the script of an input begins with another push than the secret, as it does in
  a script that satisfies the claim branch of the HTLC (the signature for
  \<^verbatim>\<open>OP_CHECKSIG\<close> lies below the secret), the scan does not look further into that input.
\<close>

lemma decompile_data_head:
  assumes "compile (Data d # chunks) = Inr bs"
  shows "decompile bs = None
    \<or> (\<exists>rest. decompile bs =
          Some ((case asMinimalOP d of Some opcode \<Rightarrow> Opcode opcode | None \<Rightarrow> Data d) # rest))"
proof (cases "asMinimalOP d")
  case None
  then have len: "length d > 0"
    by (auto simp: asMinimalOP_def split: if_splits)
  from None assms obtain header tl where
    e: "pushdata_encode (length d) = Inr header" and bs: "bs = header @ d @ tl"
    by (auto split: sum.splits)
  show ?thesis
    using decompile_push [OF e len, of tl] by (auto simp: bs None split: option.splits)
next
  case (Some opcode)
  then obtain tl where bs: "bs = of_nat opcode # tl"
    using assms by (auto split: sum.splits)
  have r: "opcode = 0 \<or> (78 < opcode \<and> opcode \<le> 96)"
    using asMinimalOP_range [OF Some] .
  then have "unat (of_nat opcode :: 8 word) = opcode"
    by (auto simp: unat_of_nat)
  then have "unat (of_nat opcode :: 8 word) = 0 \<or> unat (of_nat opcode :: 8 word) > 78"
    using r by auto
  from decompile_opcode [OF this, of tl] show ?thesis
    using \<open>unat (of_nat opcode :: 8 word) = opcode\<close>
    by (auto simp: bs Some split: option.splits)
qed

lemma signed_claim_spend_scan:
  assumes "compile [Data signature, Data secret, Opcode OP_TRUE, Data script] = Inr scriptSig"
    and "length signature \<noteq> 32"
  shows "extractSecretFromTransaction
      \<lparr>ins = [\<lparr>in_hash = txid, in_index = vout, in_script = scriptSig, in_sequence = n\<rparr>],
       outs = outputs, tx_locktime = l\<rparr> expectedHash = None"
  using decompile_data_head [OF assms(1)] assms(2)
  by (auto simp: extractSecretFromTransaction_def split: option.splits)

text \<open>The number encoding of a block height, and the script of an HTLC.\<close>

lemma script_number_encode_800144: "script_number_encode 800144 = [144, 53, 12]"
  by (simp add: script_number_encode_def scriptNumSize_def toInt32_def numeral_3_eq_3)

text \<open>
  The HTLC script \<^verbatim>\<open>createHTLCOutput\<close> makes, with the placeholder keys of
  \<^verbatim>\<open>addressToPubKey\<close>, for the hash of the secret of 32 zero bytes and block height
  800144.
\<close>

lemma createHTLCScript_placeholder:
  "createHTLCScript (sha256 (replicate 32 0)) (addressToPubKey recipientAddress)
      (addressToPubKey refundAddress) 800144 =
    Inr [99, 168, 32, 102, 104, 122, 173, 248, 98, 189, 119, 108, 143, 193, 139, 142,
             159, 142, 32, 8, 151, 20, 133, 110, 226, 51, 179, 144, 42, 89, 29, 13,
             95, 41, 37, 136, 33, 0, 0, 0, 0, 0, 0, 0, 0, 0, 0, 0,
             0, 0, 0, 0, 0, 0, 0, 0, 0, 0, 0, 0, 0, 0, 0, 0,
             0, 0, 0, 0, 0, 0, 172, 103, 3, 144, 53, 12, 177, 117, 33, 0,
             0, 0, 0, 0, 0, 0, 0, 0, 0, 0, 0, 0, 0, 0, 0, 0,
             0, 0, 0, 0, 0, 0, 0, 0, 0, 0, 0, 0, 0, 0, 0, 0,
             172, 104]"
proof -
  have z: "replicate 33 (0 :: 8 word) = [0, 0, 0, 0, 0, 0, 0, 0, 0, 0, 0, 0, 0, 0, 0, 0, 0, 0, 0, 0, 0, 0, 0, 0, 0, 0, 0, 0, 0, 0, 0, 0, 0]"
    by (simp add: numeral_eq_Suc)
  show ?thesis
    by (simp add: createHTLCScript_def addressToPubKey_def sha256_zero z
        script_number_encode_800144 asMinimalOP_def
        pushdata_encode_def OP_PUSHDATA1_def OP_IF_def OP_ELSE_def OP_ENDIF_def OP_DROP_def
        OP_EQUALVERIFY_def OP_SHA256_def OP_CHECKSIG_def OP_CHECKLOCKTIMEVERIFY_def)
qed

text \<open>
  C7. From a transaction that spends the claim branch with the secret,
  \<^verbatim>\<open>extractSecretFromTransaction\<close> should recover the secret. It does not: for the HTLC
  script of \<^verbatim>\<open>createHTLCScript\<close> on the hash of the secret of 32 zero bytes, the
  recipient's key and block height 800144, the input script that satisfies the claim
  branch pushes the recipient's signature, then the secret, \<^verbatim>\<open>OP_TRUE\<close> and the redeem
  script. \<^verbatim>\<open>decompile\<close> reads these four chunks back, the secret second, and the
  extractor, which looks at the first chunk of an input only, returns \<^verbatim>\<open>null\<close>.
\<close>

theorem signed_claim_spend_hides_secret:
  "(let secret = replicate 32 0;
        hash = sha256 secret;
        recipientPubKey = [2, 121, 190, 102, 126, 249, 220, 187, 172, 85, 160, 98, 149, 206, 135, 11,
         7, 2, 155, 252, 219, 45, 206, 40, 217, 89, 242, 129, 91, 22, 248, 23,
         152];
        refundPubKey = [2, 198, 4, 127, 148, 65, 237, 125, 109, 48, 69, 64, 110, 149, 192, 124,
         216, 92, 119, 142, 75, 140, 239, 60, 167, 171, 172, 9, 185, 92, 112, 158,
         229];
        signature = [48, 68, 2, 32, 122, 56, 176, 125, 163, 51, 238, 109, 164, 32, 149, 140,
         191, 203, 239, 253, 79, 11, 160, 120, 171, 78, 94, 40, 229, 240, 47, 174,
         196, 121, 124, 199, 2, 32, 60, 27, 112, 27, 94, 146, 25, 132, 230, 225,
         6, 70, 168, 91, 199, 205, 7, 2, 195, 231, 254, 84, 210, 248, 130, 245,
         84, 174, 67, 91, 209, 9, 1]
    in case createHTLCScript hash recipientPubKey refundPubKey 800144 of
         Inl err \<Rightarrow> False
       | Inr script \<Rightarrow>
           (case compile [Data signature, Data secret, Opcode OP_TRUE, Data script] of
              Inl err \<Rightarrow> False
            | Inr scriptSig \<Rightarrow>
                toHex script = ''63a82066687aadf862bd776c8fc18b8e9f8e20089714856ee233b3902a591d0d5f292588210279be667ef9dcbbac55a06295ce870b07029bfcdb2dce28d959f2815b16f81798ac670390350cb1752102c6047f9441ed7d6d3045406e95c07cd85c778e4b8cef3ca7abac09b95c709ee5ac68''
                \<and> toHex scriptSig = ''47304402207a38b07da333ee6da420958cbfcbeffd4f0ba078ab4e5e28e5f02faec4797cc702203c1b701b5e921984e6e10646a85bc7cd0702c3e7fe54d2f882f554ae435bd10901200000000000000000000000000000000000000000000000000000000000000000514c7263a82066687aadf862bd776c8fc18b8e9f8e20089714856ee233b3902a591d0d5f292588210279be667ef9dcbbac55a06295ce870b07029bfcdb2dce28d959f2815b16f81798ac670390350cb1752102c6047f9441ed7d6d3045406e95c07cd85c778e4b8cef3ca7abac09b95c709ee5ac68''
                \<and> decompile scriptSig =
                    Some [Data signature, Data secret, Opcode OP_TRUE, Data script]
                \<and> extractSecretFromTransaction
                     \<lparr>ins = [\<lparr>in_hash = ''aaaaaaaaaaaaaaaaaaaaaaaaaaaaaaaaaaaaaaaaaaaaaaaaaaaaaaaaaaaaaaaa'',
                              in_index = 0, in_script = scriptSig, in_sequence = 4294967295\<rparr>],
                      outs = [\<lparr>out_address = ''mrCDrCybB6J1vRfbwM5hemdJz73FwDBC8r'',
                               out_value = 49000\<rparr>],
                      tx_locktime = 0\<rparr> hash = None))"
proof -
  let ?secret = "replicate 32 0 :: bytes"
  let ?pub1 = "[2, 121, 190, 102, 126, 249, 220, 187, 172, 85, 160, 98, 149, 206, 135, 11,
         7, 2, 155, 252, 219, 45, 206, 40, 217, 89, 242, 129, 91, 22, 248, 23,
         152] :: bytes"
  let ?pub2 = "[2, 198, 4, 127, 148, 65, 237, 125, 109, 48, 69, 64, 110, 149, 192, 124,
         216, 92, 119, 142, 75, 140, 239, 60, 167, 171, 172, 9, 185, 92, 112, 158,
         229] :: bytes"
  let ?sig = "[48, 68, 2, 32, 122, 56, 176, 125, 163, 51, 238, 109, 164, 32, 149, 140,
         191, 203, 239, 253, 79, 11, 160, 120, 171, 78, 94, 40, 229, 240, 47, 174,
         196, 121, 124, 199, 2, 32, 60, 27, 112, 27, 94, 146, 25, 132, 230, 225,
         6, 70, 168, 91, 199, 205, 7, 2, 195, 231, 254, 84, 210, 248, 130, 245,
         84, 174, 67, 91, 209, 9, 1] :: bytes"
  let ?script = "[99, 168, 32, 102, 104, 122, 173, 248, 98, 189, 119, 108, 143, 193, 139, 142,
         159, 142, 32, 8, 151, 20, 133, 110, 226, 51, 179, 144, 42, 89, 29, 13,
         95, 41, 37, 136, 33, 2, 121, 190, 102, 126, 249, 220, 187, 172, 85, 160,
         98, 149, 206, 135, 11, 7, 2, 155, 252, 219, 45, 206, 40, 217, 89, 242,
         129, 91, 22, 248, 23, 152, 172, 103, 3, 144, 53, 12, 177, 117, 33, 2,
         198, 4, 127, 148, 65, 237, 125, 109, 48, 69, 64, 110, 149, 192, 124, 216,
         92, 119, 142, 75, 140, 239, 60, 167, 171, 172, 9, 185, 92, 112, 158, 229,
         172, 104] :: bytes"
  let ?scriptSig = "71 # ?sig @ 32 # ?secret @ 81 # 76 # 114 # ?script"
  have script: "createHTLCScript (sha256 ?secret) ?pub1 ?pub2 800144 = Inr ?script"
    by (simp add: createHTLCScript_def sha256_zero script_number_encode_800144 asMinimalOP_def
        pushdata_encode_def OP_PUSHDATA1_def OP_IF_def OP_ELSE_def OP_ENDIF_def OP_DROP_def
        OP_EQUALVERIFY_def OP_SHA256_def OP_CHECKSIG_def OP_CHECKLOCKTIMEVERIFY_def)
  have sx: "toHex ?script = ''63a82066687aadf862bd776c8fc18b8e9f8e20089714856ee233b3902a591d0d5f292588210279be667ef9dcbbac55a06295ce870b07029bfcdb2dce28d959f2815b16f81798ac670390350cb1752102c6047f9441ed7d6d3045406e95c07cd85c778e4b8cef3ca7abac09b95c709ee5ac68''"
    by (simp add: toHex_def hex_digit_def)
  have c: "compile [Data ?sig, Data ?secret, Opcode OP_TRUE, Data ?script] = Inr ?scriptSig"
    by (simp add: asMinimalOP_def pushdata_encode_def OP_PUSHDATA1_def OP_TRUE_def)
  have z: "?secret = [0, 0, 0, 0, 0, 0, 0, 0, 0, 0, 0, 0, 0, 0, 0, 0, 0, 0, 0, 0, 0, 0, 0, 0, 0, 0, 0, 0, 0, 0, 0, 0]"
    by (simp add: numeral_eq_Suc)
  have cx: "toHex ?scriptSig = ''47304402207a38b07da333ee6da420958cbfcbeffd4f0ba078ab4e5e28e5f02faec4797cc702203c1b701b5e921984e6e10646a85bc7cd0702c3e7fe54d2f882f554ae435bd10901200000000000000000000000000000000000000000000000000000000000000000514c7263a82066687aadf862bd776c8fc18b8e9f8e20089714856ee233b3902a591d0d5f292588210279be667ef9dcbbac55a06295ce870b07029bfcdb2dce28d959f2815b16f81798ac670390350cb1752102c6047f9441ed7d6d3045406e95c07cd85c778e4b8cef3ca7abac09b95c709ee5ac68''"
    by (simp add: z toHex_def hex_digit_def)
  have d: "decompile ?scriptSig = Some [Data ?sig, Data ?secret, Opcode OP_TRUE, Data ?script]"
    by (rule decompile_compile [OF c]) (simp add: asMinimalOP_def OP_TRUE_def)
  have e: "extractSecretFromTransaction
      \<lparr>ins = [\<lparr>in_hash = ''aaaaaaaaaaaaaaaaaaaaaaaaaaaaaaaaaaaaaaaaaaaaaaaaaaaaaaaaaaaaaaaa'',
               in_index = 0, in_script = ?scriptSig, in_sequence = 4294967295\<rparr>],
       outs = [\<lparr>out_address = ''mrCDrCybB6J1vRfbwM5hemdJz73FwDBC8r'', out_value = 49000\<rparr>],
       tx_locktime = 0\<rparr> (sha256 ?secret) = None"
    by (rule signed_claim_spend_scan [OF c]) simp
  show ?thesis
    unfolding Let_def script c sum.case
    using sx cx d e by (intro conjI) assumption+
qed

text \<open>The second loop leaves the outputs and the lock time as they are.\<close>

lemma signInputs_outputs:
  "signInputs lib htlc chunks keyPair idxs psbt = Inr psbt' \<Longrightarrow>
    psbt_outputs psbt' = psbt_outputs psbt \<and> psbt_locktime psbt' = psbt_locktime psbt"
proof (induction idxs arbitrary: psbt)
  case Nil
  then show ?case by simp
next
  case (Cons i idxs)
  from Cons.prems obtain script where
    "signInputs lib htlc chunks keyPair idxs
       (psbt\<lparr>psbt_inputs := (psbt_inputs psbt)
          [i := (psbt_inputs psbt ! i)\<lparr>pi_finalScriptSig := Some script\<rparr>]\<rparr>) = Inr psbt'"
    by (auto simp del: compile.simps split: sum.splits if_splits)
  from Cons.IH [OF this] show ?case
    by simp
qed


lemma refund_transaction_output:
  assumes "createRefundTransaction lib htlc key refundAddress utxos = Inr tx"
  shows "outs tx = [\<lparr>out_address = refundAddress, out_value = htlc_amount htlc - 1000\<rparr>]
    \<and> tx_locktime tx = htlc_lockTime htlc"
proof -
  let ?out = "\<lparr>out_address = refundAddress, out_value = htlc_amount htlc - 1000\<rparr>"
  from assms obtain keyPair psbt1 finalized where
    a: "addInputs lib htlc (Some 4294967294) utxos
        (new_Psbt\<lparr>psbt_locktime := htlc_lockTime htlc\<rparr>) = Inr psbt1"
    and s: "signInputs lib htlc [Opcode OP_FALSE] keyPair [0..<length utxos]
        (psbt1\<lparr>psbt_outputs := psbt_outputs psbt1 @ [?out]\<rparr>) = Inr finalized"
    and e: "extractTransaction lib finalized = Inr tx"
    by (auto simp: createRefundTransaction_def Let_def simp del: compile.simps upt.simps
        split: option.splits sum.splits if_splits)
  have "psbt_outputs finalized = [?out] \<and> psbt_locktime finalized = htlc_lockTime htlc"
    using signInputs_outputs [OF s] addInputs_result [OF a] by (simp add: new_Psbt_def)
  then show ?thesis
    using e by (auto simp: extractTransaction_def split: if_splits)
qed




section \<open>Properties of the state store and the coordinator\<close>

lemma swap_file_inject: "swap_file a = swap_file b \<Longrightarrow> a = b"
  by (simp add: swap_file_def)

lemma foldl_deleteSwapState_keeps:
  "swapId \<notin> set ids \<Longrightarrow>
    map_of (swapStates (foldl deleteSwapState sm ids)) swapId = map_of (swapStates sm) swapId
    \<and> map_of (files (foldl deleteSwapState sm ids)) (swap_file swapId)
        = map_of (files sm) (swap_file swapId)"
proof (induction ids arbitrary: sm)
  case Nil
  then show ?case by simp
next
  case (Cons i ids)
  then have ne: "swapId \<noteq> i" and "swapId \<notin> set ids"
    by auto
  then have ih: "map_of (swapStates (foldl deleteSwapState (deleteSwapState sm i) ids)) swapId
      = map_of (swapStates (deleteSwapState sm i)) swapId
    \<and> map_of (files (foldl deleteSwapState (deleteSwapState sm i) ids)) (swap_file swapId)
      = map_of (files (deleteSwapState sm i)) (swap_file swapId)"
    using Cons.IH by blast
  have "swap_file swapId \<noteq> swap_file i"
    using ne swap_file_inject by blast
  then have "map_of (swapStates (deleteSwapState sm i)) swapId = map_of (swapStates sm) swapId"
    and "map_of (files (deleteSwapState sm i)) (swap_file swapId)
      = map_of (files sm) (swap_file swapId)"
    using ne by (simp_all add: deleteSwapState_def)
  then show ?case
    using ih by simp
qed

text \<open>
  C9. \<^verbatim>\<open>cleanupExpiredSwaps\<close> deletes only swaps whose status is \<^verbatim>\<open>completed\<close> or
  \<^verbatim>\<open>refunded\<close>. A record with any other status, so in particular every record that is
  neither completed nor refunded nor expired, is in the store afterwards as it was
  before, in memory and on disk, for every age threshold and every clock value. The
  first assumption is that of the \<^verbatim>\<open>Map\<close>: its keys are distinct.
\<close>

theorem cleanup_keeps_non_terminal:
  assumes "distinct (map fst (swapStates sm))"
    and "map_of (swapStates sm) swapId = Some swapState"
    and "ss_status swapState \<noteq> ''completed''"
    and "ss_status swapState \<noteq> ''refunded''"
  shows "map_of (swapStates (fst (cleanupExpiredSwaps now maxAge sm))) swapId = Some swapState
    \<and> map_of (files (fst (cleanupExpiredSwaps now maxAge sm))) (swap_file swapId)
        = map_of (files sm) (swap_file swapId)"
proof -
  let ?cutoff = "now - (case maxAge of None \<Rightarrow> 30 * 24 * 60 * 60 * 1000 | Some age \<Rightarrow> age)"
  let ?ids = "map fst (filter (\<lambda>(swapId, swapState).
      ss_createdAt swapState < ?cutoff \<and>
      (ss_status swapState = ''completed'' \<or> ss_status swapState = ''refunded''))
      (swapStates sm))"
  have "swapId \<notin> set ?ids"
  proof
    assume "swapId \<in> set ?ids"
    then obtain s where in_map: "(swapId, s) \<in> set (swapStates sm)"
      and st: "ss_status s = ''completed'' \<or> ss_status s = ''refunded''"
      by auto
    have "map_of (swapStates sm) swapId = Some s"
      using map_of_is_SomeI [OF assms(1) in_map] .
    then show False
      using assms(2-4) st by simp
  qed
  from foldl_deleteSwapState_keeps [OF this, of sm]
  show ?thesis
    using assms(2) by (simp add: cleanupExpiredSwaps_def Let_def)
qed

theorem cleanup_keeps_non_terminal_witness:
  "distinct (map fst
     [(''a'', \<lparr>ss_swapId = ''a'', ss_status = ''initiated'',
         ss_btcSide = \<lparr>bs_amount = 1, bs_userAddress = ''u'', bs_htlcAddress = ''h'',
           bs_htlcScript = ''63'', bs_secret = ''07'', bs_secretHash = ''ca'', bs_lockTime = 9\<rparr>,
         ss_ethSide = \<lparr>es_tokenAddress = ''t'', es_amount = 2, es_userAddress = ''e'', es_quote = ''q''\<rparr>,
         ss_createdAt = 0, ss_expiresAt = 86400000, ss_btcTxId = None, ss_ethTxHash = None,
         ss_completedAt = None, ss_refundedAt = None, ss_ethRefundTxHash = None,
         ss_lastUpdated = Some 0\<rparr>),
      (''b'', \<lparr>ss_swapId = ''b'', ss_status = ''completed'',
         ss_btcSide = \<lparr>bs_amount = 1, bs_userAddress = ''u'', bs_htlcAddress = ''h'',
           bs_htlcScript = ''63'', bs_secret = ''07'', bs_secretHash = ''ca'', bs_lockTime = 9\<rparr>,
         ss_ethSide = \<lparr>es_tokenAddress = ''t'', es_amount = 2, es_userAddress = ''e'', es_quote = ''q''\<rparr>,
         ss_createdAt = 0, ss_expiresAt = 86400000, ss_btcTxId = Some ''x'', ss_ethTxHash = Some ''y'',
         ss_completedAt = Some 5, ss_refundedAt = None, ss_ethRefundTxHash = None,
         ss_lastUpdated = Some 5\<rparr>)])
   \<and> map fst (swapStates (fst (cleanupExpiredSwaps 9000000000 (Some 1)
       \<lparr>swapStates =
         [(''a'', \<lparr>ss_swapId = ''a'', ss_status = ''initiated'',
             ss_btcSide = \<lparr>bs_amount = 1, bs_userAddress = ''u'', bs_htlcAddress = ''h'',
               bs_htlcScript = ''63'', bs_secret = ''07'', bs_secretHash = ''ca'', bs_lockTime = 9\<rparr>,
             ss_ethSide = \<lparr>es_tokenAddress = ''t'', es_amount = 2, es_userAddress = ''e'', es_quote = ''q''\<rparr>,
             ss_createdAt = 0, ss_expiresAt = 86400000, ss_btcTxId = None, ss_ethTxHash = None,
             ss_completedAt = None, ss_refundedAt = None, ss_ethRefundTxHash = None,
             ss_lastUpdated = Some 0\<rparr>),
          (''b'', \<lparr>ss_swapId = ''b'', ss_status = ''completed'',
             ss_btcSide = \<lparr>bs_amount = 1, bs_userAddress = ''u'', bs_htlcAddress = ''h'',
               bs_htlcScript = ''63'', bs_secret = ''07'', bs_secretHash = ''ca'', bs_lockTime = 9\<rparr>,
             ss_ethSide = \<lparr>es_tokenAddress = ''t'', es_amount = 2, es_userAddress = ''e'', es_quote = ''q''\<rparr>,
             ss_createdAt = 0, ss_expiresAt = 86400000, ss_btcTxId = Some ''x'', ss_ethTxHash = Some ''y'',
             ss_completedAt = Some 5, ss_refundedAt = None, ss_ethRefundTxHash = None,
             ss_lastUpdated = Some 5\<rparr>)],
        files = []\<rparr>))) = [''a'']
   \<and> map_of (swapStates (fst (cleanupExpiredSwaps 9000000000 (Some 1)
       \<lparr>swapStates =
         [(''a'', \<lparr>ss_swapId = ''a'', ss_status = ''initiated'',
             ss_btcSide = \<lparr>bs_amount = 1, bs_userAddress = ''u'', bs_htlcAddress = ''h'',
               bs_htlcScript = ''63'', bs_secret = ''07'', bs_secretHash = ''ca'', bs_lockTime = 9\<rparr>,
             ss_ethSide = \<lparr>es_tokenAddress = ''t'', es_amount = 2, es_userAddress = ''e'', es_quote = ''q''\<rparr>,
             ss_createdAt = 0, ss_expiresAt = 86400000, ss_btcTxId = None, ss_ethTxHash = None,
             ss_completedAt = None, ss_refundedAt = None, ss_ethRefundTxHash = None,
             ss_lastUpdated = Some 0\<rparr>),
          (''b'', \<lparr>ss_swapId = ''b'', ss_status = ''completed'',
             ss_btcSide = \<lparr>bs_amount = 1, bs_userAddress = ''u'', bs_htlcAddress = ''h'',
               bs_htlcScript = ''63'', bs_secret = ''07'', bs_secretHash = ''ca'', bs_lockTime = 9\<rparr>,
             ss_ethSide = \<lparr>es_tokenAddress = ''t'', es_amount = 2, es_userAddress = ''e'', es_quote = ''q''\<rparr>,
             ss_createdAt = 0, ss_expiresAt = 86400000, ss_btcTxId = Some ''x'', ss_ethTxHash = Some ''y'',
             ss_completedAt = Some 5, ss_refundedAt = None, ss_ethRefundTxHash = None,
             ss_lastUpdated = Some 5\<rparr>)],
        files = []\<rparr>))) ''a''
     = Some \<lparr>ss_swapId = ''a'', ss_status = ''initiated'',
         ss_btcSide = \<lparr>bs_amount = 1, bs_userAddress = ''u'', bs_htlcAddress = ''h'',
           bs_htlcScript = ''63'', bs_secret = ''07'', bs_secretHash = ''ca'', bs_lockTime = 9\<rparr>,
         ss_ethSide = \<lparr>es_tokenAddress = ''t'', es_amount = 2, es_userAddress = ''e'', es_quote = ''q''\<rparr>,
         ss_createdAt = 0, ss_expiresAt = 86400000, ss_btcTxId = None, ss_ethTxHash = None,
         ss_completedAt = None, ss_refundedAt = None, ss_ethRefundTxHash = None,
         ss_lastUpdated = Some 0\<rparr>"
proof -
  let ?a = "\<lparr>ss_swapId = ''a'', ss_status = ''initiated'',
         ss_btcSide = \<lparr>bs_amount = 1, bs_userAddress = ''u'', bs_htlcAddress = ''h'',
           bs_htlcScript = ''63'', bs_secret = ''07'', bs_secretHash = ''ca'', bs_lockTime = 9\<rparr>,
         ss_ethSide = \<lparr>es_tokenAddress = ''t'', es_amount = 2, es_userAddress = ''e'', es_quote = ''q''\<rparr>,
         ss_createdAt = 0, ss_expiresAt = 86400000, ss_btcTxId = None, ss_ethTxHash = None,
         ss_completedAt = None, ss_refundedAt = None, ss_ethRefundTxHash = None,
         ss_lastUpdated = Some 0\<rparr>"
  let ?b = "\<lparr>ss_swapId = ''b'', ss_status = ''completed'',
         ss_btcSide = \<lparr>bs_amount = 1, bs_userAddress = ''u'', bs_htlcAddress = ''h'',
           bs_htlcScript = ''63'', bs_secret = ''07'', bs_secretHash = ''ca'', bs_lockTime = 9\<rparr>,
         ss_ethSide = \<lparr>es_tokenAddress = ''t'', es_amount = 2, es_userAddress = ''e'', es_quote = ''q''\<rparr>,
         ss_createdAt = 0, ss_expiresAt = 86400000, ss_btcTxId = Some ''x'', ss_ethTxHash = Some ''y'',
         ss_completedAt = Some 5, ss_refundedAt = None, ss_ethRefundTxHash = None,
         ss_lastUpdated = Some 5\<rparr>"
  let ?sm = "\<lparr>swapStates = [(''a'', ?a), (''b'', ?b)], files = []\<rparr>"
  have d: "distinct (map fst (swapStates ?sm))"
    by simp
  have m: "map_of (swapStates ?sm) ''a'' = Some ?a"
    by simp
  have s1: "ss_status ?a \<noteq> ''completed''" and s2: "ss_status ?a \<noteq> ''refunded''"
    by simp_all
  have gone: "map fst (swapStates (fst (cleanupExpiredSwaps 9000000000 (Some 1) ?sm))) = [''a'']"
    by (simp add: cleanupExpiredSwaps_def deleteSwapState_def)
  show ?thesis
    using d gone cleanup_keeps_non_terminal [OF d m s1 s2, of 9000000000 "Some 1"]
    by simp
qed

text \<open>
  C2, as the code has it. The state \<^verbatim>\<open>initiateBTCToETHSwap\<close> saves, once the quote has
  arrived and before the registry is called or anything is revealed, holds the secret
  itself in hexadecimal next to its hash: in the file of the swap, and in memory.
\<close>

theorem initiate_persists_secret:
  assumes "o_quote out = Some ethQuote"
  shows "\<exists>swapState.
      map_of (files (fst (initiateBTCToETHSwap out sm swapParams))) (swap_file (o_swapId out))
        = Some swapState
    \<and> map_of (swapStates (fst (initiateBTCToETHSwap out sm swapParams))) (o_swapId out)
        = Some (swapState\<lparr>ss_lastUpdated := Some (o_now out)\<rparr>)
    \<and> ss_status swapState = ''initiated''
    \<and> bs_secret (ss_btcSide swapState) = toHex (o_randomBytes out)
    \<and> bs_secretHash (ss_btcSide swapState) = toHex (sha256 (o_randomBytes out))"
  using assms
  by (auto simp: initiateBTCToETHSwap_def generateSecret_def saveSwapState_def Let_def
      update_conv' split: option.splits)

theorem initiate_persists_secret_witness:
  "o_quote \<lparr>o_swapId = ''0xab'', o_randomBytes = [1, 2, 3, 4, 5, 6, 7, 8, 9, 10, 11, 12, 13, 14, 15, 16,
        17, 18, 19, 20, 21, 22, 23, 24, 25, 26, 27, 28, 29, 30, 31, 32],
      o_createHTLCScript = (\<lambda>hash recipientPubKey refundPubKey lockTime'. [99, 168]),
      o_createP2SHAddress = (\<lambda>script. ''2N''), o_serviceBtcAddress = ''tb1s'', o_quote = Some ''q'', o_now = 1700000000000,
      o_initiateEthereumSwap = None\<rparr> = Some ''q''
   \<and> map_option (\<lambda>swapState. (ss_status swapState, bs_secret (ss_btcSide swapState)))
       (map_of (files (fst (initiateBTCToETHSwap
         \<lparr>o_swapId = ''0xab'', o_randomBytes = [1, 2, 3, 4, 5, 6, 7, 8, 9, 10, 11, 12, 13, 14, 15, 16,
            17, 18, 19, 20, 21, 22, 23, 24, 25, 26, 27, 28, 29, 30, 31, 32],
          o_createHTLCScript = (\<lambda>hash recipientPubKey refundPubKey lockTime'. [99, 168]),
      o_createP2SHAddress = (\<lambda>script. ''2N''), o_serviceBtcAddress = ''tb1s'', o_quote = Some ''q'', o_now = 1700000000000,
          o_initiateEthereumSwap = None\<rparr>
         \<lparr>swapStates = [], files = []\<rparr>
         \<lparr>p_btcAmount = 100000, p_ethTokenAddress = ''0xEe'', p_ethAmount = 1,
          p_userBtcAddress = ''tb1q'', p_userEthAddress = ''0x74'', p_lockTime = 1700086400\<rparr>)))
         (swap_file ''0xab''))
     = Some (''initiated'', ''0102030405060708090a0b0c0d0e0f101112131415161718191a1b1c1d1e1f20'')"
proof -
  let ?out = "\<lparr>o_swapId = ''0xab'', o_randomBytes = [1, 2, 3, 4, 5, 6, 7, 8, 9, 10, 11, 12, 13, 14, 15, 16,
        17, 18, 19, 20, 21, 22, 23, 24, 25, 26, 27, 28, 29, 30, 31, 32 :: 8 word],
      o_createHTLCScript = (\<lambda>hash recipientPubKey refundPubKey lockTime'. [99, 168]),
      o_createP2SHAddress = (\<lambda>script. ''2N''), o_serviceBtcAddress = ''tb1s'', o_quote = Some ''q'', o_now = 1700000000000,
      o_initiateEthereumSwap = None\<rparr>"
  have q: "o_quote ?out = Some ''q''"
    by simp
  have h: "toHex (o_randomBytes ?out)
      = ''0102030405060708090a0b0c0d0e0f101112131415161718191a1b1c1d1e1f20''"
    by (simp add: toHex_def hex_digit_def)
  obtain swapState where
    "map_of (files (fst (initiateBTCToETHSwap ?out \<lparr>swapStates = [], files = []\<rparr>
        \<lparr>p_btcAmount = 100000, p_ethTokenAddress = ''0xEe'', p_ethAmount = 1,
         p_userBtcAddress = ''tb1q'', p_userEthAddress = ''0x74'', p_lockTime = 1700086400\<rparr>)))
        (swap_file (o_swapId ?out)) = Some swapState"
    and "ss_status swapState = ''initiated''"
    and "bs_secret (ss_btcSide swapState) = toHex (o_randomBytes ?out)"
    using initiate_persists_secret [OF q] by blast
  then show ?thesis
    using q h by simp
qed

text \<open>
  The claim as stated fails on the first state saved: for the secret of the bytes 1 to
  32, the file written by \<^verbatim>\<open>initiateBTCToETHSwap\<close>, with the swap neither completed nor
  refunded and the registry call not even made, holds the secret in its field
  \<^verbatim>\<open>btcSide.secret\<close>.
\<close>

theorem initiate_persists_secret_counterexample:
  "map_option
     (\<lambda>swapState. (ss_status swapState, ss_completedAt swapState, bs_secret (ss_btcSide swapState)))
     (map_of (files (fst (initiateBTCToETHSwap
         \<lparr>o_swapId = ''0xab'', o_randomBytes = [1, 2, 3, 4, 5, 6, 7, 8, 9, 10, 11, 12, 13, 14, 15, 16,
            17, 18, 19, 20, 21, 22, 23, 24, 25, 26, 27, 28, 29, 30, 31, 32],
          o_createHTLCScript = (\<lambda>hash recipientPubKey refundPubKey lockTime'. [99, 168]),
      o_createP2SHAddress = (\<lambda>script. ''2N''), o_serviceBtcAddress = ''tb1s'', o_quote = Some ''q'', o_now = 1700000000000,
          o_initiateEthereumSwap = None\<rparr>
         \<lparr>swapStates = [], files = []\<rparr>
         \<lparr>p_btcAmount = 100000, p_ethTokenAddress = ''0xEe'', p_ethAmount = 1,
          p_userBtcAddress = ''tb1q'', p_userEthAddress = ''0x74'', p_lockTime = 1700086400\<rparr>)))
       ''swap_0xab.json'')
   = Some (''initiated'', None, ''0102030405060708090a0b0c0d0e0f101112131415161718191a1b1c1d1e1f20'')
   \<and> toHex [1, 2, 3, 4, 5, 6, 7, 8, 9, 10, 11, 12, 13, 14, 15, 16,
        17, 18, 19, 20, 21, 22, 23, 24, 25, 26, 27, 28, 29, 30, 31, 32]
     = ''0102030405060708090a0b0c0d0e0f101112131415161718191a1b1c1d1e1f20''"
proof -
  have h: "toHex [1, 2, 3, 4, 5, 6, 7, 8, 9, 10, 11, 12, 13, 14, 15, 16,
        17, 18, 19, 20, 21, 22, 23, 24, 25, 26, 27, 28, 29, 30, 31, 32]
      = ''0102030405060708090a0b0c0d0e0f101112131415161718191a1b1c1d1e1f20''"
    by (simp add: toHex_def hex_digit_def)
  show ?thesis
    by (simp add: h initiateBTCToETHSwap_def generateSecret_def createHTLCOutput_def
        saveSwapState_def swap_file_def Let_def)
qed

end
